theory Spec2Isabelle
  imports Main "HOL-Library.Word" "HOL-Library.Monad_Syntax"
begin

unbundle bit_operations_syntax

section \<open>PNLFS: data model\<close>

text \<open>
  The embedding follows \<^verbatim>\<open>src/pnlfs.c\<close>. The header \<^verbatim>\<open>pnlfs.h\<close> is not among the sources:
  the compile-time constant \<^verbatim>\<open>PNLFS_MAX_DIR_ENTRIES\<close> is an argument of the operations that
  use it, and the size \<^verbatim>\<open>PNLFS_FILENAME_LEN\<close> of the filename field is the length of the
  list that models the field.

  Conventions.
  \<^item> Counters of type \<^verbatim>\<open>uint32_t\<close> are \<open>nat\<close>: every decrement in the source is guarded by
    a test against zero and every increment by a test against an upper bound.
  \<^item> \<^verbatim>\<open>unsigned long\<close> bitmap words are 64-bit words (the mount code copies them one to one
    from \<^verbatim>\<open>__le64\<close>, and \<^verbatim>\<open>PNLFS_WORD_SIZE = sizeof(long) = 8\<close>).
  \<^item> A C function returns \<open>Some\<close> of its result and of the state it leaves. \<open>None\<close> means
    that the call has no defined result: a loop that never ends, a shift outside the range
    of \<^verbatim>\<open>int\<close>, an access outside an array or through a null pointer.
  \<^item> \<^verbatim>\<open>sb_bread\<close> fails on a block that the device does not hold, \<^verbatim>\<open>pnlfs_iget\<close> fails on
    an inode number that the inode store does not hold; every such failure is the branch
    of the source that handles it.
\<close>

text \<open>\<^verbatim>\<open>struct pnlfs_file\<close>: a directory entry; \<open>filename\<close> is the whole fixed-size field.\<close>

record pnlfs_file =
  inode :: nat
  filename :: string

text \<open>
  \<^verbatim>\<open>struct pnlfs_sb_info\<close>, with each bitmap as the array of its words: the length of the
  list is \<^verbatim>\<open>nr_ifree_blocks * PNLFS_NR_WORDS_IN_BLOCK\<close> (likewise for blocks), the number of
  words that the mount code allocates and the allocator wraps around at.
\<close>

record pnlfs_sb_info =
  nr_free_inodes :: nat
  nr_free_blocks :: nat
  ifree_bitmap :: "64 word list"
  bfree_bitmap :: "64 word list"

text \<open>\<^verbatim>\<open>struct inode\<close> together with its enclosing \<^verbatim>\<open>struct pnlfs_inode_info\<close>.\<close>

record pnlfs_inode_info =
  i_ino :: nat
  i_mode :: "16 word"
  i_size :: nat
  i_blocks :: nat
  index_block :: nat
  nr_entries :: nat

text \<open>
  A block of the device, seen through the cast the source applies to it:
  \<^verbatim>\<open>struct pnlfs_dir_block\<close> or \<^verbatim>\<open>struct pnlfs_file_index_block\<close>. Reading a block through
  the other cast is outside the model (\<open>None\<close>).
\<close>

datatype block = Dir_block "pnlfs_file list" | File_index_block "nat list"

text \<open>
  The mounted volume: the superblock information, the inodes reachable through
  \<^verbatim>\<open>pnlfs_iget\<close> (the inode cache over the inode store) and the blocks reachable through
  \<^verbatim>\<open>sb_bread\<close>. A \<^verbatim>\<open>struct inode *\<close> is the key of the inode in \<open>icache\<close>.
\<close>

record volume =
  sbi :: pnlfs_sb_info
  icache :: "nat \<Rightarrow> pnlfs_inode_info option"
  disk :: "nat \<Rightarrow> block option"

definition S_ISREG :: "16 word \<Rightarrow> bool" where
  "S_ISREG m = (m AND 0xF000 = 0x8000)"

definition S_ISDIR :: "16 word \<Rightarrow> bool" where
  "S_ISDIR m = (m AND 0xF000 = 0x4000)"

definition S_IFDIR :: "16 word" where
  "S_IFDIR = 0x4000"

definition NUL :: char where
  "NUL = CHR 0x00"

section \<open>Bitmap allocator\<close>

text \<open>
  The word scan of \<^verbatim>\<open>get_next_ifree\<close> and \<^verbatim>\<open>get_next_bfree\<close>:
  \<^verbatim>\<open>while (*cur == 0) { ++cur; if (cur == last) cur = first; }\<close>.
  It never ends on a bitmap without a set bit.
\<close>

partial_function (option) next_word :: "64 word list \<Rightarrow> nat \<Rightarrow> nat option" where
  "next_word bm cur =
     (if length bm \<le> cur then None
      else if bm ! cur = 0
        then next_word bm (if Suc cur = length bm then 0 else Suc cur)
        else Some cur)"

declare next_word.simps [code]

text \<open>
  The bit scan \<^verbatim>\<open>for (bit_trg = 1; !(*cur & (1 << (bit_trg - 1))); ++bit_trg)\<close>, with
  \<open>k = bit_trg - 1\<close>. The constant \<^verbatim>\<open>1\<close> is an \<^verbatim>\<open>int\<close>: the shift is defined up to 30.
\<close>

function next_bit :: "64 word \<Rightarrow> nat \<Rightarrow> nat option" where
  "next_bit w k =
     (if 30 < k then None
      else if bit w k then Some k
      else next_bit w (Suc k))"
  by pat_completeness auto
termination
  by (relation "measure (\<lambda>(w, k). 31 - k)") auto

text \<open>
  The common body of \<^verbatim>\<open>get_next_ifree\<close> and \<^verbatim>\<open>get_next_bfree\<close> on one bitmap, after the
  test of the counter: the number found and the bitmap with that bit cleared. The number
  is the byte offset of the word times 8, plus the bit. \<^verbatim>\<open>get_next_ifree\<close> returns it as
  an \<^verbatim>\<open>ino_t\<close>, \<^verbatim>\<open>get_next_bfree\<close> as a \<^verbatim>\<open>uint32_t\<close>. Both return 0 when the counter is 0.
\<close>

definition get_next_free :: "64 word list \<Rightarrow> (nat \<times> 64 word list) option" where
  "get_next_free bm =
     (case next_word bm 0 of
        None \<Rightarrow> None
      | Some cur \<Rightarrow>
          (case next_bit (bm ! cur) 0 of
             None \<Rightarrow> None
           | Some k \<Rightarrow>
               Some ((cur * 8) * 8 + k, bm[cur := (bm ! cur) AND NOT (push_bit k 1)])))"

definition get_next_ifree :: "pnlfs_sb_info \<Rightarrow> (nat \<times> pnlfs_sb_info) option" where
  "get_next_ifree sb =
     (if nr_free_inodes sb = 0 then Some (0, sb)
      else case get_next_free (ifree_bitmap sb) of
        None \<Rightarrow> None
      | Some (ino, bm) \<Rightarrow>
          Some (ino, sb\<lparr>ifree_bitmap := bm, nr_free_inodes := nr_free_inodes sb - 1\<rparr>))"

definition get_next_bfree :: "pnlfs_sb_info \<Rightarrow> (nat \<times> pnlfs_sb_info) option" where
  "get_next_bfree sb =
     (if nr_free_blocks sb = 0 then Some (0, sb)
      else case get_next_free (bfree_bitmap sb) of
        None \<Rightarrow> None
      | Some (blk, bm) \<Rightarrow>
          Some (blk mod 2 ^ 32,
                sb\<lparr>bfree_bitmap := bm, nr_free_blocks := nr_free_blocks sb - 1\<rparr>))"

text \<open>
  \<^verbatim>\<open>cur[n / PNLFS_WORD_SIZE] |= (1 << (n % PNLFS_WORD_SIZE))\<close> with
  \<^verbatim>\<open>PNLFS_WORD_SIZE = sizeof(long) = 8\<close>. A write past the last word is \<open>None\<close>.
\<close>

definition set_free :: "64 word list \<Rightarrow> nat \<Rightarrow> 64 word list option" where
  "set_free bm n =
     (if length bm \<le> n div 8 then None
      else Some (bm[n div 8 := (bm ! (n div 8)) OR push_bit (n mod 8) 1]))"

definition free_ifree :: "pnlfs_sb_info \<Rightarrow> nat \<Rightarrow> pnlfs_sb_info option" where
  "free_ifree sb ino =
     (case set_free (ifree_bitmap sb) ino of
        None \<Rightarrow> None
      | Some bm \<Rightarrow> Some (sb\<lparr>ifree_bitmap := bm\<rparr>))"

definition free_bfree :: "pnlfs_sb_info \<Rightarrow> nat \<Rightarrow> pnlfs_sb_info option" where
  "free_bfree sb blk =
     (case set_free (bfree_bitmap sb) blk of
        None \<Rightarrow> None
      | Some bm \<Rightarrow> Some (sb\<lparr>bfree_bitmap := bm\<rparr>))"

text \<open>
  Reading the bitmaps the way the allocator numbers them: resource \<open>n\<close> is bit \<open>n mod 64\<close>
  of word \<open>n div 64\<close>. \<open>popcount\<close> counts the set bits of a bitmap.
\<close>

definition bitmap_bit :: "64 word list \<Rightarrow> nat \<Rightarrow> bool" where
  "bitmap_bit bm n = (n div 64 < length bm \<and> bit (bm ! (n div 64)) (n mod 64))"

definition popcount :: "64 word list \<Rightarrow> nat" where
  "popcount bm = sum_list (map (\<lambda>w. length (filter (bit w) [0..<64])) bm)"

section \<open>Strings\<close>

text \<open>
  A name (\<^verbatim>\<open>struct qstr\<close>) is the list of its \<^verbatim>\<open>len\<close> characters, the terminator left out.
  The filename field of a directory entry is the list of all its bytes.

  \<open>strncmp cs ct n\<close> is \<^verbatim>\<open>strncmp(cs, ct, n) == 0\<close> for a terminated string \<open>cs\<close> and a
  field \<open>ct\<close>; a comparison that reads past the end of the field is \<open>None\<close>.
\<close>

fun strncmp :: "string \<Rightarrow> string \<Rightarrow> nat \<Rightarrow> bool option" where
  "strncmp cs ct 0 = Some True"
| "strncmp cs [] (Suc n) = None"
| "strncmp [] (c # ct) (Suc n) = Some (c = NUL)"
| "strncmp (a # cs) (c # ct) (Suc n) =
     (if a \<noteq> c then Some False
      else if a = NUL then Some True
      else strncmp cs ct n)"

text \<open>
  \<^verbatim>\<open>strncpy(dst, src, n)\<close> writes exactly \<open>n\<close> bytes: the characters of \<open>src\<close>, then NUL
  bytes when \<open>src\<close> is shorter than \<open>n\<close>. \<^verbatim>\<open>strcpy(dst, src)\<close> writes the characters and
  the terminator. Both leave the rest of the field as it was; a write past the end of the
  field is \<open>None\<close>.
\<close>

definition strncpy :: "string \<Rightarrow> string \<Rightarrow> nat \<Rightarrow> string option" where
  "strncpy dst src n =
     (if length dst < n then None
      else Some (take n (src @ replicate (n - length src) NUL) @ drop n dst))"

definition strcpy :: "string \<Rightarrow> string \<Rightarrow> string option" where
  "strcpy dst src =
     (if length dst < Suc (length src) then None
      else Some (src @ NUL # drop (Suc (length src)) dst))"

text \<open>\<^verbatim>\<open>strnlen(fle->filename, PNLFS_FILENAME_LEN)\<close> characters of the field.\<close>

definition emitted_name :: "string \<Rightarrow> string" where
  "emitted_name fld = takeWhile (\<lambda>c. c \<noteq> NUL) fld"

section \<open>Name resolution\<close>

definition pnlfs_iget :: "volume \<Rightarrow> nat \<Rightarrow> pnlfs_inode_info option" where
  "pnlfs_iget s ino = icache s ino"

text \<open>
  The loop of \<^verbatim>\<open>pnlfs_inode_by_name\<close> over the first \<open>n = nr_entries\<close> slots, from slot
  \<open>i\<close>; \<open>ino\<close> starts as 0 and is returned unchanged when no slot matches.
\<close>

function inode_by_name_loop :: "string \<Rightarrow> pnlfs_file list \<Rightarrow> nat \<Rightarrow> nat \<Rightarrow> nat option" where
  "inode_by_name_loop name files n i =
     (if i < n then
        (if length files \<le> i then None
         else case strncmp name (filename (files ! i)) (length name) of
           None \<Rightarrow> None
         | Some eq \<Rightarrow>
             if eq then Some (inode (files ! i))
             else inode_by_name_loop name files n (Suc i))
      else Some 0)"
  by pat_completeness auto
termination
  by (relation "measure (\<lambda>(name, files, n, i). n - i)") auto


definition pnlfs_inode_by_name :: "volume \<Rightarrow> nat \<Rightarrow> string \<Rightarrow> nat option" where
  "pnlfs_inode_by_name s dir name =
     do {
       pinode_info \<leftarrow> icache s dir;
       case disk s (index_block pinode_info) of
         None \<Rightarrow> Some 0
       | Some (File_index_block _) \<Rightarrow> None
       | Some (Dir_block files) \<Rightarrow>
           inode_by_name_loop name files (nr_entries pinode_info) 0
     }"

text \<open>
  \<^verbatim>\<open>pnlfs_lookup\<close>: the inode bound to the dentry, \<open>None\<close> for the negative dentry made by
  \<^verbatim>\<open>d_add(dentry, NULL)\<close>.
\<close>

definition pnlfs_lookup :: "volume \<Rightarrow> nat \<Rightarrow> string \<Rightarrow> pnlfs_inode_info option option" where
  "pnlfs_lookup s dir name =
     do {
       ino \<leftarrow> pnlfs_inode_by_name s dir name;
       if ino = 0 then Some None
       else Some (pnlfs_iget s ino)
     }"

section \<open>Creation\<close>

text \<open>
  \<^verbatim>\<open>pnlfs_new_inode\<close>: the key of the new inode, or \<open>None\<close> for the \<^verbatim>\<open>NULL\<close> result, and
  the volume as the call leaves it.
\<close>

definition pnlfs_new_inode :: "volume \<Rightarrow> 16 word \<Rightarrow> (nat option \<times> volume) option" where
  "pnlfs_new_inode s mode =
     do {
       (ino, sb1) \<leftarrow> get_next_ifree (sbi s);
       let s1 = s\<lparr>sbi := sb1\<rparr>;
       if ino = 0 then Some (None, s1)
       else case pnlfs_iget s1 ino of
         None \<Rightarrow> Some (None, s1)
       | Some inod \<Rightarrow>
           do {
             (blk, sb2) \<leftarrow> get_next_bfree sb1;
             Some (Some ino,
               s1\<lparr>sbi := sb2,
                  icache := (icache s1)(ino \<mapsto>
                    inod\<lparr>i_mode := mode, i_size := 0, i_blocks := 1,
                         index_block := blk, nr_entries := 0\<rparr>)\<rparr>)
           }
     }"

text \<open>
  The last part of \<^verbatim>\<open>pnlfs_create\<close> and of \<^verbatim>\<open>pnlfs_mkdir\<close>, from the comment "Set data
  in the directory block" to \<^verbatim>\<open>return 0\<close> (the two texts are identical). \<open>blk\<close> and
  \<open>files\<close> are the buffer of the directory block, read before the new inode was made;
  \<open>k\<close> is the new inode; the directory's \<^verbatim>\<open>nr_entries\<close> is read here, through the pointer
  \<^verbatim>\<open>dir_info\<close>.
\<close>

definition set_dir_entry ::
  "volume \<Rightarrow> nat \<Rightarrow> nat \<Rightarrow> pnlfs_file list \<Rightarrow> nat \<Rightarrow> string \<Rightarrow> (int \<times> volume) option" where
  "set_dir_entry s1 dir blk files k name =
     do {
       inod \<leftarrow> icache s1 k;
       dir_info \<leftarrow> icache s1 dir;
       if length files \<le> nr_entries dir_info then None
       else do {
         fld \<leftarrow> strncpy (filename (files ! nr_entries dir_info)) name (length name);
         Some (0,
           s1\<lparr>disk := (disk s1)(blk \<mapsto>
                Dir_block (files[nr_entries dir_info :=
                  \<lparr>inode = i_ino inod mod 2 ^ 32, filename = fld\<rparr>])),
              icache := (icache s1)(dir \<mapsto>
                dir_info\<lparr>nr_entries := Suc (nr_entries dir_info)\<rparr>)\<rparr>)
       }
     }"

text \<open>
  \<^verbatim>\<open>pnlfs_create\<close>. \<open>mx\<close> is \<^verbatim>\<open>PNLFS_MAX_DIR_ENTRIES\<close>. The result is the returned \<^verbatim>\<open>int\<close>
  and the volume.
\<close>

definition pnlfs_create :: "nat \<Rightarrow> volume \<Rightarrow> nat \<Rightarrow> string \<Rightarrow> 16 word \<Rightarrow> (int \<times> volume) option" where
  "pnlfs_create mx s dir name mode =
     do {
       dir_info \<leftarrow> icache s dir;
       if mx \<le> nr_entries dir_info then Some (- 1, s)
       else case disk s (index_block dir_info) of
         None \<Rightarrow> Some (- 1, s)
       | Some (File_index_block _) \<Rightarrow> None
       | Some (Dir_block files) \<Rightarrow>
           do {
             (r, s1) \<leftarrow> pnlfs_new_inode s mode;
             case r of
               None \<Rightarrow> Some (- 1, s1)
             | Some k \<Rightarrow> set_dir_entry s1 dir (index_block dir_info) files k name
           }
     }"

text \<open>\<^verbatim>\<open>pnlfs_mkdir\<close>: the same text with the mode \<^verbatim>\<open>S_IFDIR | mode\<close>.\<close>

definition pnlfs_mkdir :: "nat \<Rightarrow> volume \<Rightarrow> nat \<Rightarrow> string \<Rightarrow> 16 word \<Rightarrow> (int \<times> volume) option" where
  "pnlfs_mkdir mx s dir name mode =
     do {
       dir_info \<leftarrow> icache s dir;
       if mx \<le> nr_entries dir_info then Some (- 1, s)
       else case disk s (index_block dir_info) of
         None \<Rightarrow> Some (- 1, s)
       | Some (File_index_block _) \<Rightarrow> None
       | Some (Dir_block files) \<Rightarrow>
           do {
             (r, s1) \<leftarrow> pnlfs_new_inode s (S_IFDIR OR mode);
             case r of
               None \<Rightarrow> Some (- 1, s1)
             | Some k \<Rightarrow> set_dir_entry s1 dir (index_block dir_info) files k name
           }
     }"

section \<open>Removal\<close>

text \<open>
  \<^verbatim>\<open>memcpy(&files[i], &files[i] + 1, sizeof(struct pnlfs_file) * cnt)\<close>: the regions
  overlap, and the copy is the ascending one of the kernel's \<^verbatim>\<open>memcpy\<close>, so slot \<open>i + j\<close>
  receives the old slot \<open>i + j + 1\<close> for every \<open>j < cnt\<close>. A copy that leaves the block is
  \<open>None\<close>.
\<close>

definition memcpy_files :: "pnlfs_file list \<Rightarrow> nat \<Rightarrow> nat \<Rightarrow> pnlfs_file list option" where
  "memcpy_files files i cnt =
     (if length files < Suc i + cnt then None
      else Some (take i files @ take cnt (drop (Suc i) files) @ drop (i + cnt) files))"

text \<open>
  The loop that \<^verbatim>\<open>pnlfs_unlink\<close>, \<^verbatim>\<open>pnlfs_rmdir\<close> and \<^verbatim>\<open>pnlfs_rename\<close> each contain:
  \<^verbatim>\<open>for (i = 0; i < nr_entries - 1; ++i) if (!strncmp(...)) { memcpy(...); break; }\<close>.
  Every caller has returned before it when \<open>nr_entries\<close> is 0.
\<close>

function delete_entry_loop :: "string \<Rightarrow> pnlfs_file list \<Rightarrow> nat \<Rightarrow> nat \<Rightarrow> pnlfs_file list option" where
  "delete_entry_loop name files n i =
     (if i < n - 1 then
        (if length files \<le> i then None
         else case strncmp name (filename (files ! i)) (length name) of
           None \<Rightarrow> None
         | Some eq \<Rightarrow>
             if eq then memcpy_files files i (n - i - 1)
             else delete_entry_loop name files n (Suc i))
      else Some files)"
  by pat_completeness auto
termination
  by (relation "measure (\<lambda>(name, files, n, i). n - i)") auto


text \<open>
  The part that the three functions share word for word, from the comment "Get the
  directory block" to the \<^verbatim>\<open>brelse\<close> after the decrement of \<^verbatim>\<open>nr_entries\<close>: read the
  directory block, run the loop, decrement. The inner \<open>None\<close> is the failure of
  \<^verbatim>\<open>sb_bread\<close>, on which each of the three returns \<open>-1\<close>.
\<close>

definition delete_dir_entry ::
  "volume \<Rightarrow> nat \<Rightarrow> pnlfs_inode_info \<Rightarrow> string \<Rightarrow> volume option option" where
  "delete_dir_entry s dir dir_info name =
     (case disk s (index_block dir_info) of
        None \<Rightarrow> Some None
      | Some (File_index_block _) \<Rightarrow> None
      | Some (Dir_block files) \<Rightarrow>
          do {
            files1 \<leftarrow> delete_entry_loop name files (nr_entries dir_info) 0;
            Some (Some (s\<lparr>disk := (disk s)(index_block dir_info \<mapsto> Dir_block files1),
                          icache := (icache s)(dir \<mapsto>
                            dir_info\<lparr>nr_entries := nr_entries dir_info - 1\<rparr>)\<rparr>))
          })"

text \<open>
  The loop of \<^verbatim>\<open>pnlfs_unlink\<close> that frees the data blocks of the file:
  \<^verbatim>\<open>for (i = 0; i < nr_entries; ++i) free_bfree(sb, blocks[i])\<close>.
\<close>

function free_file_blocks :: "pnlfs_sb_info \<Rightarrow> block \<Rightarrow> nat \<Rightarrow> nat \<Rightarrow> pnlfs_sb_info option" where
  "free_file_blocks sb b n i =
     (if i < n then
        (case b of
           Dir_block _ \<Rightarrow> None
         | File_index_block blocks \<Rightarrow>
             if length blocks \<le> i then None
             else case free_bfree sb (blocks ! i) of
               None \<Rightarrow> None
             | Some sb1 \<Rightarrow> free_file_blocks sb1 b n (Suc i))
      else Some sb)"
  by pat_completeness auto
termination
  by (relation "measure (\<lambda>(sb, b, n, i). n - i)") auto

text \<open>
  The second half of \<^verbatim>\<open>pnlfs_unlink\<close>, from the comment "Get the regular file block":
  free the data blocks, the index block and the inode.
\<close>

definition unlink_free :: "volume \<Rightarrow> nat \<Rightarrow> (int \<times> volume) option" where
  "unlink_free s1 ino =
     do {
       inode_info \<leftarrow> icache s1 ino;
       case disk s1 (index_block inode_info) of
         None \<Rightarrow> Some (- 1, s1)
       | Some b \<Rightarrow>
           do {
             sb1 \<leftarrow> free_file_blocks (sbi s1) b (nr_entries inode_info) 0;
             sb2 \<leftarrow> free_bfree sb1 (index_block inode_info);
             sb3 \<leftarrow> free_ifree sb2 (i_ino inode_info);
             Some (0, s1\<lparr>sbi := sb3\<rparr>)
           }
     }"

text \<open>
  \<^verbatim>\<open>pnlfs_unlink(dir, dentry)\<close>: \<open>name\<close> is \<^verbatim>\<open>dentry->d_name\<close> and \<open>ino\<close> is the key of
  \<^verbatim>\<open>dentry->d_inode\<close>, resolved by the caller.
\<close>

definition pnlfs_unlink :: "volume \<Rightarrow> nat \<Rightarrow> string \<Rightarrow> nat \<Rightarrow> (int \<times> volume) option" where
  "pnlfs_unlink s dir name ino =
     do {
       inod \<leftarrow> icache s ino;
       if \<not> S_ISREG (i_mode inod) then Some (- 1, s)
       else do {
         inode_info \<leftarrow> icache s dir;
         if nr_entries inode_info = 0 then Some (- 1, s)
         else do {
           r \<leftarrow> delete_dir_entry s dir inode_info name;
           case r of
             None \<Rightarrow> Some (- 1, s)
           | Some s1 \<Rightarrow> unlink_free s1 ino
         }
       }
     }"

text \<open>
  The end of \<^verbatim>\<open>pnlfs_rmdir\<close>, from the comment "Delete the dentry directory": free the
  directory block and the inode, set \<^verbatim>\<open>i_size\<close> to 0.
\<close>

definition rmdir_free :: "volume \<Rightarrow> nat \<Rightarrow> (int \<times> volume) option" where
  "rmdir_free s1 ino =
     do {
       inode_info \<leftarrow> icache s1 ino;
       sb1 \<leftarrow> free_bfree (sbi s1) (index_block inode_info);
       sb2 \<leftarrow> free_ifree sb1 (i_ino inode_info);
       Some (0, s1\<lparr>sbi := sb2, icache := (icache s1)(ino \<mapsto> inode_info\<lparr>i_size := 0\<rparr>)\<rparr>)
     }"

text \<open>\<^verbatim>\<open>pnlfs_rmdir(dir, dentry)\<close>, with \<open>ino\<close> the key of \<^verbatim>\<open>dentry->d_inode\<close>.\<close>

definition pnlfs_rmdir :: "volume \<Rightarrow> nat \<Rightarrow> string \<Rightarrow> nat \<Rightarrow> (int \<times> volume) option" where
  "pnlfs_rmdir s dir name ino =
     do {
       inod \<leftarrow> icache s ino;
       if \<not> S_ISDIR (i_mode inod) then Some (- 1, s)
       else do {
         dir_info \<leftarrow> icache s dir;
         if nr_entries dir_info = 0 then Some (- 1, s)
         else if nr_entries inod \<noteq> 0 then Some (- 1, s)
         else do {
           r \<leftarrow> delete_dir_entry s dir dir_info name;
           case r of
             None \<Rightarrow> Some (- 1, s)
           | Some s1 \<Rightarrow> rmdir_free s1 ino
         }
       }
     }"

text \<open>
  The second half of \<^verbatim>\<open>pnlfs_rename\<close>, from the comment "Get the directory inode" (of
  \<^verbatim>\<open>new_dir\<close>): the test against \<^verbatim>\<open>PNLFS_MAX_DIR_ENTRIES\<close>, and the new entry written with
  \<^verbatim>\<open>strcpy\<close> at slot \<open>nr_entries\<close>. \<open>new_inode\<close> is the key of the pointer \<^verbatim>\<open>new_inode\<close>.
\<close>

definition rename_set_entry :: "nat \<Rightarrow> volume \<Rightarrow> nat \<Rightarrow> string \<Rightarrow> nat \<Rightarrow> (int \<times> volume) option" where
  "rename_set_entry mx s1 new_dir new_name new_inode =
     do {
       inode_info \<leftarrow> icache s1 new_dir;
       if mx \<le> nr_entries inode_info then Some (- 1, s1)
       else case disk s1 (index_block inode_info) of
         None \<Rightarrow> Some (- 1, s1)
       | Some (File_index_block _) \<Rightarrow> None
       | Some (Dir_block files) \<Rightarrow>
           do {
             inod \<leftarrow> icache s1 new_inode;
             if length files \<le> nr_entries inode_info then None
             else do {
               fld \<leftarrow> strcpy (filename (files ! nr_entries inode_info)) new_name;
               Some (0,
                 s1\<lparr>disk := (disk s1)(index_block inode_info \<mapsto>
                      Dir_block (files[nr_entries inode_info :=
                        \<lparr>inode = i_ino inod mod 2 ^ 32, filename = fld\<rparr>])),
                    icache := (icache s1)(new_dir \<mapsto>
                      inode_info\<lparr>nr_entries := Suc (nr_entries inode_info)\<rparr>)\<rparr>)
             }
           }
     }"

text \<open>
  \<^verbatim>\<open>pnlfs_rename\<close>. \<open>old_ino\<close> is the key of \<^verbatim>\<open>old_dentry->d_inode\<close>; \<open>new_ino\<close> is that of
  \<^verbatim>\<open>new_dentry->d_inode\<close>, \<open>None\<close> when the pointer is \<^verbatim>\<open>NULL\<close>. The \<^verbatim>\<open>flags\<close> are not read.
\<close>

definition pnlfs_rename ::
  "nat \<Rightarrow> volume \<Rightarrow> nat \<Rightarrow> string \<Rightarrow> nat \<Rightarrow> nat \<Rightarrow> string \<Rightarrow> nat option \<Rightarrow> (int \<times> volume) option" where
  "pnlfs_rename mx s old_dir old_name old_ino new_dir new_name new_ino =
     do {
       let new_inode = (case new_ino of None \<Rightarrow> old_ino | Some t \<Rightarrow> t);
       inode_info \<leftarrow> icache s old_dir;
       if nr_entries inode_info = 0 then Some (- 1, s)
       else do {
         r \<leftarrow> delete_dir_entry s old_dir inode_info old_name;
         case r of
           None \<Rightarrow> Some (- 1, s)
         | Some s1 \<Rightarrow> rename_set_entry mx s1 new_dir new_name new_inode
       }
     }"

section \<open>Directory enumeration\<close>

text \<open>
  The \<^verbatim>\<open>struct dir_context\<close> of the caller: the cursor \<open>pos\<close>, and the actor behind
  \<^verbatim>\<open>dir_emit\<close> as the list of the entries it has taken and the number \<open>room\<close> of entries
  it still takes before it refuses one.
\<close>

datatype d_type = DT_UNKNOWN | DT_DIR | DT_REG

record dir_context =
  pos :: int
  emitted :: "(string \<times> nat \<times> d_type) list"
  room :: nat

definition dir_emit :: "dir_context \<Rightarrow> string \<Rightarrow> nat \<Rightarrow> d_type \<Rightarrow> bool \<times> dir_context" where
  "dir_emit ctx name ino t =
     (if room ctx = 0 then (False, ctx)
      else (True, ctx\<lparr>emitted := emitted ctx @ [(name, ino, t)], room := room ctx - 1\<rparr>))"

text \<open>
  The kernel's \<^verbatim>\<open>dir_emit_dots\<close>: "." at cursor 0 and ".." at cursor 1, each moving the
  cursor on; \<open>self\<close> and \<open>parent\<close> are the inode numbers the kernel reads from the dentry.
\<close>

definition dir_emit_dots :: "nat \<Rightarrow> nat \<Rightarrow> dir_context \<Rightarrow> bool \<times> dir_context" where
  "dir_emit_dots self parent ctx =
     (let (ok0, ctx0) =
            (if pos ctx = 0 then
               (let (ok, c) = dir_emit ctx ''.'' self DT_DIR
                in if ok then (True, c\<lparr>pos := 1\<rparr>) else (False, c))
             else (True, ctx))
      in if \<not> ok0 then (False, ctx0)
         else if pos ctx0 = 1 then
           (let (ok, c) = dir_emit ctx0 ''..'' parent DT_DIR
            in if ok then (True, c\<lparr>pos := 2\<rparr>) else (False, c))
         else (True, ctx0))"

text \<open>
  The loop of \<^verbatim>\<open>pnlfs_readdir\<close>: \<^verbatim>\<open>for (i = 0; i < nr_entries; ++i)\<close>, each round emitting
  slot \<open>i\<close> and adding 1 to the cursor.
\<close>

function readdir_loop :: "volume \<Rightarrow> pnlfs_file list \<Rightarrow> nat \<Rightarrow> nat \<Rightarrow> dir_context \<Rightarrow> (int \<times> dir_context) option" where
  "readdir_loop s files n i ctx =
     (if i < n then
        (if length files \<le> i then None
         else do {
           inod \<leftarrow> pnlfs_iget s (inode (files ! i));
           let t = (if S_ISDIR (i_mode inod) then DT_DIR
                    else if S_ISREG (i_mode inod) then DT_REG else DT_UNKNOWN);
           let (ok, ctx1) = dir_emit ctx (emitted_name (filename (files ! i))) (i_ino inod) t;
           if \<not> ok then Some (0, ctx1)
           else readdir_loop s files n (Suc i) (ctx1\<lparr>pos := pos ctx1 + 1\<rparr>)
         })
      else Some (0, ctx))"
  by pat_completeness auto
termination
  by (relation "measure (\<lambda>(s, files, n, i, ctx). n - i)") auto

text \<open>
  \<^verbatim>\<open>pnlfs_readdir(file, ctx)\<close> on the directory with key \<open>dir\<close>, whose parent has the inode
  number \<open>parent\<close>.
\<close>

definition pnlfs_readdir :: "volume \<Rightarrow> nat \<Rightarrow> nat \<Rightarrow> dir_context \<Rightarrow> (int \<times> dir_context) option" where
  "pnlfs_readdir s dir parent ctx =
     do {
       pinode_info \<leftarrow> icache s dir;
       if int (nr_entries pinode_info + 2) \<le> pos ctx then Some (0, ctx)
       else
         (let (ok, ctx1) = dir_emit_dots (i_ino pinode_info) parent ctx
          in if \<not> ok then Some (0, ctx1)
             else case disk s (index_block pinode_info) of
               None \<Rightarrow> Some (- 1, ctx1)
             | Some (File_index_block _) \<Rightarrow> None
             | Some (Dir_block files) \<Rightarrow>
                 readdir_loop s files (nr_entries pinode_info) 0 ctx1)
     }"

section \<open>A freshly formatted image\<close>

text \<open>
  Modelled from the spec: the formatter is not part of the sources. The image is that of
  the spec's scenario S1: 64 blocks, 32 inodes, one block each for the inode store and the
  two bitmaps, so block 4 is the first block of the data area and holds the root's
  directory block. Inode 0 is the root and is allocated; inodes 1 to 31 and blocks 5 to 63
  are free; a bitmap block has 512 words. \<open>mx\<close> and \<open>flen\<close> are \<^verbatim>\<open>PNLFS_MAX_DIR_ENTRIES\<close>
  and \<^verbatim>\<open>PNLFS_FILENAME_LEN\<close>. Blocks 0 to 3 hold no directory and no file index.
\<close>

definition zero_dir_block :: "nat \<Rightarrow> nat \<Rightarrow> block" where
  "zero_dir_block mx flen =
     Dir_block (replicate mx \<lparr>inode = 0, filename = replicate flen NUL\<rparr>)"

definition zero_inode :: "nat \<Rightarrow> pnlfs_inode_info" where
  "zero_inode ino =
     \<lparr>i_ino = ino, i_mode = 0, i_size = 0, i_blocks = 1, index_block = 0, nr_entries = 0\<rparr>"

definition mkfs :: "nat \<Rightarrow> nat \<Rightarrow> volume" where
  "mkfs mx flen =
     \<lparr>sbi = \<lparr>nr_free_inodes = 31, nr_free_blocks = 59,
             ifree_bitmap = 0xFFFFFFFE # replicate 511 0,
             bfree_bitmap = 0xFFFFFFFFFFFFFFE0 # replicate 511 0\<rparr>,
      icache = (\<lambda>ino. if ino = 0
                  then Some ((zero_inode 0)\<lparr>i_mode := 0x41ED, index_block := 4\<rparr>)
                  else if ino < 32 then Some (zero_inode ino) else None),
      disk = (\<lambda>b. if b < 4 then Some (File_index_block [])
                  else if b < 64 then Some (zero_dir_block mx flen) else None)\<rparr>"

section \<open>Reading a directory\<close>

text \<open>
  The live entries of the directory \<open>dir\<close>: the first \<open>nr_entries\<close> slots of its directory
  block, when the inode and the block can be read and the block has that many slots.
\<close>

definition live_entries :: "volume \<Rightarrow> nat \<Rightarrow> pnlfs_file list option" where
  "live_entries s dir =
     do {
       d \<leftarrow> icache s dir;
       case disk s (index_block d) of
         None \<Rightarrow> None
       | Some (File_index_block _) \<Rightarrow> None
       | Some (Dir_block files) \<Rightarrow>
           if length files < nr_entries d then None
           else Some (take (nr_entries d) files)
     }"

text \<open>The inode number and the name, up to the first NUL, of each live entry.\<close>

definition listing :: "volume \<Rightarrow> nat \<Rightarrow> (nat \<times> string) list option" where
  "listing s dir =
     map_option (map (\<lambda>e. (inode e, emitted_name (filename e)))) (live_entries s dir)"

section \<open>Concrete volumes\<close>

text \<open>
  A superblock in which inodes 0 to 9 and blocks 0 to 9 are allocated and every other
  inode and block of the 32 and 64 is free.
\<close>

definition sb_used :: pnlfs_sb_info where
  "sb_used =
     \<lparr>nr_free_inodes = 22, nr_free_blocks = 54,
      ifree_bitmap = 0xFFFFFC00 # replicate 511 0,
      bfree_bitmap = 0xFFFFFFFFFFFFFC00 # replicate 511 0\<rparr>"

text \<open>A volume whose root directory has the single entry \<open>x\<close>, which stores inode number 0.\<close>

definition vol_entry0 :: volume where
  "vol_entry0 =
     \<lparr>sbi = sbi (mkfs 128 28),
      icache = (icache (mkfs 128 28))(0 \<mapsto>
        \<lparr>i_ino = 0, i_mode = 0x41ED, i_size = 0, i_blocks = 1, index_block = 4,
         nr_entries = 1\<rparr>),
      disk = (disk (mkfs 128 28))(4 \<mapsto>
        Dir_block (\<lparr>inode = 0, filename = ''x'' @ replicate 27 NUL\<rparr> #
                   replicate 127 \<lparr>inode = 0, filename = replicate 28 NUL\<rparr>))\<rparr>"

text \<open>
  A directory entry with a name of at most 28 bytes, padded with NUL bytes as on a block
  that was zero before the name was written.
\<close>

definition entry :: "nat \<Rightarrow> string \<Rightarrow> pnlfs_file" where
  "entry ino name = \<lparr>inode = ino, filename = name @ replicate (28 - length name) NUL\<rparr>"

text \<open>
  The fresh image after the regular files \<open>a\<close> (inode 1, index block 5) and \<open>b\<close> (inode 2,
  index block 6) and the empty directory \<open>d\<close> (inode 3, directory block 7) have been
  made in the root, with \<^verbatim>\<open>PNLFS_MAX_DIR_ENTRIES = 128\<close> and \<^verbatim>\<open>PNLFS_FILENAME_LEN = 28\<close>.
\<close>

definition vol_abd :: volume where
  "vol_abd =
     \<lparr>sbi = \<lparr>nr_free_inodes = 28, nr_free_blocks = 56,
             ifree_bitmap = 0xFFFFFFF0 # replicate 511 0,
             bfree_bitmap = 0xFFFFFFFFFFFFFF00 # replicate 511 0\<rparr>,
      icache = (icache (mkfs 128 28))
        (0 \<mapsto> \<lparr>i_ino = 0, i_mode = 0x41ED, i_size = 0, i_blocks = 1, index_block = 4,
                nr_entries = 3\<rparr>,
         1 \<mapsto> \<lparr>i_ino = 1, i_mode = 0x81A4, i_size = 0, i_blocks = 1, index_block = 5,
                nr_entries = 0\<rparr>,
         2 \<mapsto> \<lparr>i_ino = 2, i_mode = 0x81A4, i_size = 0, i_blocks = 1, index_block = 6,
                nr_entries = 0\<rparr>,
         3 \<mapsto> \<lparr>i_ino = 3, i_mode = 0x41ED, i_size = 0, i_blocks = 1, index_block = 7,
                nr_entries = 0\<rparr>),
      disk = (disk (mkfs 128 28))
        (4 \<mapsto> Dir_block (entry 1 ''a'' # entry 2 ''b'' # entry 3 ''d'' #
                           replicate 125 (entry 0 [])))\<rparr>"

text \<open>
  The fresh image after only the regular file \<open>a\<close> (inode 1, index block 5) has been
  made in the root: a directory with exactly one entry.
\<close>

definition vol_a :: volume where
  "vol_a =
     \<lparr>sbi = \<lparr>nr_free_inodes = 30, nr_free_blocks = 58,
             ifree_bitmap = 0xFFFFFFFC # replicate 511 0,
             bfree_bitmap = 0xFFFFFFFFFFFFFFC0 # replicate 511 0\<rparr>,
      icache = (icache (mkfs 128 28))
        (0 \<mapsto> \<lparr>i_ino = 0, i_mode = 0x41ED, i_size = 0, i_blocks = 1, index_block = 4,
                nr_entries = 1\<rparr>,
         1 \<mapsto> \<lparr>i_ino = 1, i_mode = 0x81A4, i_size = 0, i_blocks = 1, index_block = 5,
                nr_entries = 0\<rparr>),
      disk = (disk (mkfs 128 28))
        (4 \<mapsto> Dir_block (entry 1 ''a'' # replicate 127 (entry 0 [])))\<rparr>"

text \<open>
  The same volume with no free block left: the file \<open>a\<close> owns the 56 blocks 8 to 63
  through its file index block.
\<close>

definition vol_noblocks :: volume where
  "vol_noblocks =
     vol_abd
     \<lparr>sbi := \<lparr>nr_free_inodes = 28, nr_free_blocks = 0,
              ifree_bitmap = 0xFFFFFFF0 # replicate 511 0,
              bfree_bitmap = replicate 512 0\<rparr>,
      icache := (icache vol_abd)
        (1 \<mapsto> \<lparr>i_ino = 1, i_mode = 0x81A4, i_size = 229376, i_blocks = 57, index_block = 5,
                nr_entries = 56\<rparr>),
      disk := (disk vol_abd)(5 \<mapsto> File_index_block [8..<64])\<rparr>"

text \<open>
  A volume of 512 blocks and 256 inodes. The root holds the directory \<open>d\<close> (inode 1,
  directory block 5) and the regular file \<open>g\<close> (inode 2, index block 6). The directory
  \<open>d\<close> is full: its 128 entries name the regular files with inodes 3 to 130 and index
  blocks 7 to 134.
\<close>

definition full_name :: "nat \<Rightarrow> string" where
  "full_name i = [char_of (97 + i div 16), char_of (97 + i mod 16)]"

definition vol_full :: volume where
  "vol_full =
     \<lparr>sbi = \<lparr>nr_free_inodes = 125, nr_free_blocks = 377,
             ifree_bitmap = 0 # 0 # 0xFFFFFFFFFFFFFFF8 # 0xFFFFFFFFFFFFFFFF # replicate 508 0,
             bfree_bitmap = 0 # 0 # 0xFFFFFFFFFFFFFF80 # replicate 5 0xFFFFFFFFFFFFFFFF @
                            replicate 504 0\<rparr>,
      icache = (\<lambda>ino.
        if ino = 0 then Some \<lparr>i_ino = 0, i_mode = 0x41ED, i_size = 0, i_blocks = 1,
                               index_block = 4, nr_entries = 2\<rparr>
        else if ino = 1 then Some \<lparr>i_ino = 1, i_mode = 0x41ED, i_size = 0, i_blocks = 1,
                                    index_block = 5, nr_entries = 128\<rparr>
        else if ino < 131 then Some \<lparr>i_ino = ino, i_mode = 0x81A4, i_size = 0, i_blocks = 1,
                                      index_block = ino + 4, nr_entries = 0\<rparr>
        else if ino < 256 then Some (zero_inode ino)
        else None),
      disk = (\<lambda>b.
        if b < 4 then Some (File_index_block [])
        else if b = 4 then Some (Dir_block (entry 1 ''d'' # entry 2 ''g'' #
                                            replicate 126 (entry 0 [])))
        else if b = 5 then Some (Dir_block (map (\<lambda>i. entry (i + 3) (full_name i)) [0..<128]))
        else if b < 512 then Some (zero_dir_block 128 28)
        else None)\<rparr>"

section \<open>Auxiliary lemmas\<close>

text \<open>The loops are unfolded by hand, one round at a time.\<close>

declare inode_by_name_loop.simps [simp del]
declare delete_entry_loop.simps [simp del]
declare free_file_blocks.simps [simp del]
declare readdir_loop.simps [simp del]
declare next_bit.simps [simp del]

lemmas loop_simps = inode_by_name_loop.simps delete_entry_loop.simps free_file_blocks.simps
  readdir_loop.simps next_bit.simps

lemma inode_by_name_loop_no_match:
  "\<lbrakk>n \<le> length files;
    \<forall>j. i \<le> j \<and> j < n \<longrightarrow> strncmp name (filename (files ! j)) (length name) = Some False\<rbrakk>
   \<Longrightarrow> inode_by_name_loop name files n i = Some 0"
proof (induction name files n i rule: inode_by_name_loop.induct)
  case (1 name files n i)
  show ?case
  proof (cases "i < n")
    case True
    with "1.prems" have m: "strncmp name (filename (files ! i)) (length name) = Some False"
      and l: "\<not> length files \<le> i" by auto
    have "inode_by_name_loop name files n (Suc i) = Some 0"
      using "1.IH"[OF True l m] "1.prems" by auto
    with True l m show ?thesis by (subst inode_by_name_loop.simps) simp
  next
    case False
    then show ?thesis by (subst inode_by_name_loop.simps) simp
  qed
qed

lemma inode_by_name_loop_first_match:
  "\<lbrakk>k < n; k < length files; i \<le> k;
    \<forall>j. i \<le> j \<and> j < k \<longrightarrow> strncmp name (filename (files ! j)) (length name) = Some False;
    strncmp name (filename (files ! k)) (length name) = Some True\<rbrakk>
   \<Longrightarrow> inode_by_name_loop name files n i = Some (inode (files ! k))"
proof (induction name files n i rule: inode_by_name_loop.induct)
  case (1 name files n i)
  show ?case
  proof (cases "i = k")
    case True
    with "1.prems" show ?thesis by (subst inode_by_name_loop.simps) simp
  next
    case False
    with "1.prems" have lt: "i < n" and l: "\<not> length files \<le> i"
      and m: "strncmp name (filename (files ! i)) (length name) = Some False" by auto
    have "inode_by_name_loop name files n (Suc i) = Some (inode (files ! k))"
      using "1.IH"[OF lt l m] "1.prems" False by auto
    with lt l m show ?thesis by (subst inode_by_name_loop.simps) simp
  qed
qed

lemma popcount_Cons: "popcount (w # ws) = length (filter (bit w) [0..<64]) + popcount ws"
  by (simp add: popcount_def)

lemma popcount_zeros: "popcount (replicate n 0) = 0"
  by (simp add: popcount_def)

lemma bits_FFFFFFFE: "length (filter (bit (0xFFFFFFFE :: 64 word)) [0..<64]) = 31"
  by code_simp

lemma bits_FFFFFFFFFFFFFFE0: "length (filter (bit (0xFFFFFFFFFFFFFFE0 :: 64 word)) [0..<64]) = 59"
  by code_simp

lemma next_word_head: "w \<noteq> 0 \<Longrightarrow> next_word (w # ws) 0 = Some 0"
  by (subst next_word.simps) simp

text \<open>The first \<^verbatim>\<open>pnlfs_create\<close> on the fresh image: inode 1, index block 5, slot 0 of the root.\<close>

lemma create_fresh:
  "\<exists>s. pnlfs_create 128 (mkfs 128 28) 0 ''a.txt'' 0x81A4 = Some (0, s)
     \<and> sbi s = \<lparr>nr_free_inodes = 30, nr_free_blocks = 58,
             ifree_bitmap = 0xFFFFFFFC # replicate 511 0,
             bfree_bitmap = 0xFFFFFFFFFFFFFFC0 # replicate 511 0\<rparr>
     \<and> icache s 1 = Some \<lparr>i_ino = 1, i_mode = 0x81A4, i_size = 0, i_blocks = 1,
                           index_block = 5, nr_entries = 0\<rparr>
     \<and> icache s 0 = Some \<lparr>i_ino = 0, i_mode = 0x41ED, i_size = 0, i_blocks = 1,
                           index_block = 4, nr_entries = 1\<rparr>
     \<and> disk s 4 = Some (Dir_block ((replicate 128 \<lparr>inode = 0, filename = replicate 28 NUL\<rparr>)
            [0 := \<lparr>inode = 1, filename = ''a.txt'' @ replicate 23 NUL\<rparr>]))
     \<and> disk s 5 = Some (zero_dir_block 128 28)"
  by (simp add: pnlfs_create_def set_dir_entry_def pnlfs_new_inode_def pnlfs_iget_def
        get_next_ifree_def get_next_bfree_def get_next_free_def mkfs_def next_word_head
        zero_inode_def zero_dir_block_def strncpy_def loop_simps)

text \<open>The stages of the operations, case by case.\<close>

lemma delete_dir_entry_SomeD:
  assumes "delete_dir_entry s dir d name = Some (Some s1)"
  obtains files files1 where
    "disk s (index_block d) = Some (Dir_block files)"
    "delete_entry_loop name files (nr_entries d) 0 = Some files1"
    "s1 = s\<lparr>disk := (disk s)(index_block d \<mapsto> Dir_block files1),
            icache := (icache s)(dir \<mapsto> d\<lparr>nr_entries := nr_entries d - 1\<rparr>)\<rparr>"
  using assms
  by (auto simp: delete_dir_entry_def bind_eq_Some_conv split: option.splits block.splits)

lemma delete_dir_entry_sbi:
  "delete_dir_entry s dir d name = Some (Some s1) \<Longrightarrow> sbi s1 = sbi s"
  by (erule delete_dir_entry_SomeD) simp

lemma unlink_free_frame:
  "unlink_free s1 ino = Some (r, s') \<Longrightarrow> icache s' = icache s1 \<and> disk s' = disk s1"
  by (auto simp: unlink_free_def bind_eq_Some_conv split: option.splits)

lemma rmdir_free_frame:
  "rmdir_free s1 ino = Some (r, s') \<Longrightarrow>
     disk s' = disk s1
     \<and> map_option nr_entries (icache s' k) = map_option nr_entries (icache s1 k)
     \<and> map_option index_block (icache s' k) = map_option index_block (icache s1 k)"
  by (auto simp: rmdir_free_def bind_eq_Some_conv split: option.splits)

lemma rename_set_entry_cases:
  assumes A: "rename_set_entry mx s1 new_dir new_name k = Some (r, s')"
  obtains
    (refused) "r = - 1" "s' = s1"
  | (written) e files inod fld where
      "icache s1 new_dir = Some e" "nr_entries e < mx"
      "disk s1 (index_block e) = Some (Dir_block files)"
      "icache s1 k = Some inod" "nr_entries e < length files"
      "strcpy (filename (files ! nr_entries e)) new_name = Some fld"
      "r = 0"
      "s' = s1\<lparr>disk := (disk s1)(index_block e \<mapsto>
                 Dir_block (files[nr_entries e :=
                   \<lparr>inode = i_ino inod mod 2 ^ 32, filename = fld\<rparr>])),
               icache := (icache s1)(new_dir \<mapsto> e\<lparr>nr_entries := Suc (nr_entries e)\<rparr>)\<rparr>"
proof -
  from A obtain e where e: "icache s1 new_dir = Some e"
    by (cases "icache s1 new_dir") (simp_all add: rename_set_entry_def)
  show thesis
  proof (cases "mx \<le> nr_entries e")
    case True
    with A e show thesis by (intro refused) (simp_all add: rename_set_entry_def)
  next
    case room: False
    show thesis
    proof (cases "disk s1 (index_block e)")
      case None
      with A e room show thesis by (intro refused) (simp_all add: rename_set_entry_def)
    next
      case (Some b)
      show thesis
      proof (cases b)
        case (File_index_block x)
        with A e room Some show thesis by (simp add: rename_set_entry_def)
      next
        case (Dir_block files)
        with Some have blk: "disk s1 (index_block e) = Some (Dir_block files)" by simp
        from A e room blk obtain inod where inod: "icache s1 k = Some inod"
          by (cases "icache s1 k") (simp_all add: rename_set_entry_def)
        from A e room blk inod have len: "nr_entries e < length files"
          by (cases "length files \<le> nr_entries e") (simp_all add: rename_set_entry_def)
        from A e room blk inod len obtain fld where
          fld: "strcpy (filename (files ! nr_entries e)) new_name = Some fld"
          by (cases "strcpy (filename (files ! nr_entries e)) new_name")
             (simp_all add: rename_set_entry_def)
        from A e room blk inod len fld show thesis
          by (intro written[of e files inod fld]) (simp_all add: rename_set_entry_def)
      qed
    qed
  qed
qed

lemma rename_set_entry_sbi:
  "rename_set_entry mx s1 new_dir new_name new_inode = Some (r, s') \<Longrightarrow> sbi s' = sbi s1"
  by (erule rename_set_entry_cases) simp_all

lemma rename_set_entry_frame:
  assumes "rename_set_entry mx s1 new_dir new_name new_inode = Some (r, s')"
    and "icache s1 new_dir = Some e"
  shows "k \<noteq> new_dir \<Longrightarrow> icache s' k = icache s1 k"
    and "b \<noteq> index_block e \<Longrightarrow> disk s' b = disk s1 b"
  using assms by (auto elim!: rename_set_entry_cases)

lemma rename_set_entry_count:
  assumes "rename_set_entry mx s1 new_dir new_name new_inode = Some (0, s')"
    and "icache s1 new_dir = Some e"
  shows "map_option nr_entries (icache s' new_dir) = Some (Suc (nr_entries e))"
  using assms by (auto elim!: rename_set_entry_cases)

lemma live_entriesD:
  assumes A: "live_entries s dir = Some es"
  obtains d files where "icache s dir = Some d" "disk s (index_block d) = Some (Dir_block files)"
    "nr_entries d \<le> length files" "es = take (nr_entries d) files"
proof -
  from A obtain d where d: "icache s dir = Some d"
    by (cases "icache s dir") (simp_all add: live_entries_def)
  from A d obtain b where b: "disk s (index_block d) = Some b"
    by (cases "disk s (index_block d)") (simp_all add: live_entries_def)
  from A d b obtain files where f: "b = Dir_block files"
    by (cases b) (simp_all add: live_entries_def)
  from A d b f have "nr_entries d \<le> length files" "es = take (nr_entries d) files"
    by (auto simp: live_entries_def split: if_splits)
  with d b f that show thesis by simp
qed

lemma live_entriesI:
  "\<lbrakk>icache s dir = Some d; disk s (index_block d) = Some (Dir_block files);
    nr_entries d \<le> length files\<rbrakk> \<Longrightarrow> live_entries s dir = Some (take (nr_entries d) files)"
  by (simp add: live_entries_def)

lemma delete_entry_loop_no_match:
  "\<lbrakk>n - 1 \<le> length files;
    \<forall>j. i \<le> j \<and> j < n - 1 \<longrightarrow> strncmp name (filename (files ! j)) (length name) = Some False\<rbrakk>
   \<Longrightarrow> delete_entry_loop name files n i = Some files"
proof (induction name files n i rule: delete_entry_loop.induct)
  case (1 name files n i)
  show ?case
  proof (cases "i < n - 1")
    case True
    with "1.prems" have m: "strncmp name (filename (files ! i)) (length name) = Some False"
      and l: "\<not> length files \<le> i" by auto
    have "delete_entry_loop name files n (Suc i) = Some files"
      using "1.IH"[OF True l m] "1.prems" by auto
    with True l m show ?thesis by (subst delete_entry_loop.simps) simp
  next
    case False
    then show ?thesis by (subst delete_entry_loop.simps) simp
  qed
qed

text \<open>With one live entry the loop makes no comparison at all.\<close>

lemma delete_entry_loop_one_entry: "delete_entry_loop name files 1 0 = Some files"
  by (subst delete_entry_loop.simps) simp

lemma delete_entry_loop_first_match:
  "\<lbrakk>k < n - 1; k < length files; i \<le> k;
    \<forall>j. i \<le> j \<and> j < k \<longrightarrow> strncmp name (filename (files ! j)) (length name) = Some False;
    strncmp name (filename (files ! k)) (length name) = Some True\<rbrakk>
   \<Longrightarrow> delete_entry_loop name files n i = memcpy_files files k (n - k - 1)"
proof (induction name files n i rule: delete_entry_loop.induct)
  case (1 name files n i)
  show ?case
  proof (cases "i = k")
    case True
    with "1.prems" show ?thesis by (subst delete_entry_loop.simps) simp
  next
    case False
    with "1.prems" have lt: "i < n - 1" and l: "\<not> length files \<le> i"
      and m: "strncmp name (filename (files ! i)) (length name) = Some False" by auto
    have "delete_entry_loop name files n (Suc i) = memcpy_files files k (n - k - 1)"
      using "1.IH"[OF lt l m] "1.prems" False by auto
    with lt l m show ?thesis by (subst delete_entry_loop.simps) simp
  qed
qed

text \<open>Removing the first match at slot k of the n live slots.\<close>

lemma delete_entry_loop_removes:
  assumes "k < n" and "n \<le> length files"
    and "\<forall>j<k. strncmp name (filename (files ! j)) (length name) = Some False"
    and "strncmp name (filename (files ! k)) (length name) = Some True"
  obtains files1 where "delete_entry_loop name files n 0 = Some files1"
    "length files1 = length files"
    "take (n - 1) files1 = take k (take n files) @ drop (Suc k) (take n files)"
proof (cases "k < n - 1")
  case True
  with assms have "delete_entry_loop name files n 0 = memcpy_files files k (n - k - 1)"
    by (intro delete_entry_loop_first_match) auto
  moreover from True assms have "memcpy_files files k (n - k - 1) =
     Some (take k files @ take (n - k - 1) (drop (Suc k) files) @ drop (n - 1) files)"
    by (simp add: memcpy_files_def)
  moreover have
    "take (n - 1) (take k files @ take (n - k - 1) (drop (Suc k) files) @ drop (n - 1) files)
       = take k (take n files) @ drop (Suc k) (take n files)"
  proof -
    from True assms have lA: "length (take k files) = k"
      and lB: "length (take (n - k - 1) (drop (Suc k) files)) = n - k - 1" by auto
    from True have "n - 1 = k + (n - k - 1)" by simp
    then have "take (n - 1) (take k files @ take (n - k - 1) (drop (Suc k) files) @ drop (n - 1) files)
        = take k files @ take (n - k - 1) (drop (Suc k) files)"
      using lA lB by (metis append.assoc append_eq_conv_conj length_append)
    moreover from True assms have "take k (take n files) = take k files" by (simp add: min_def)
    moreover from True have "drop (Suc k) (take n files) = take (n - k - 1) (drop (Suc k) files)"
      by (simp add: drop_take)
    ultimately show ?thesis by simp
  qed
  moreover from True assms have
    "length (take k files @ take (n - k - 1) (drop (Suc k) files) @ drop (n - 1) files) = length files"
    by simp
  ultimately show ?thesis using that by metis
next
  case False
  with assms have k: "k = n - 1" by simp
  with assms have "delete_entry_loop name files n 0 = Some files"
    by (intro delete_entry_loop_no_match) auto
  moreover from k assms have "take (n - 1) files = take k (take n files) @ drop (Suc k) (take n files)"
    by (simp add: min_def)
  ultimately show ?thesis using that by metis
qed

lemma pnlfs_inode_by_name_live:
  assumes "live_entries s dir = Some es"
    and "\<forall>j<length es. strncmp name (filename (es ! j)) (length name) = Some False"
  shows "pnlfs_inode_by_name s dir name = Some 0"
proof -
  from assms(1) obtain d files where d: "icache s dir = Some d"
    and b: "disk s (index_block d) = Some (Dir_block files)"
    and l: "nr_entries d \<le> length files" and es: "es = take (nr_entries d) files"
    by (rule live_entriesD)
  from l es assms(2) have "inode_by_name_loop name files (nr_entries d) 0 = Some 0"
    by (intro inode_by_name_loop_no_match) auto
  with d b show ?thesis by (simp add: pnlfs_inode_by_name_def)
qed

lemma dir_view_cong:
  assumes "icache s1 dir = Some d"
    and "map_option nr_entries (icache s' dir) = Some (nr_entries d)"
    and "map_option index_block (icache s' dir) = Some (index_block d)"
    and "disk s' (index_block d) = disk s1 (index_block d)"
  shows "live_entries s' dir = live_entries s1 dir"
  using assms by (auto simp: live_entries_def split: option.splits block.splits)

text \<open>The shared removal stage, when the first match is at slot k.\<close>

lemma delete_dir_entry_removes:
  assumes le: "live_entries s dir = Some es"
    and d: "icache s dir = Some d"
    and k: "k < length es"
    and before: "\<forall>j<k. strncmp name (filename (es ! j)) (length name) = Some False"
    and match: "strncmp name (filename (es ! k)) (length name) = Some True"
  shows "\<exists>s1. delete_dir_entry s dir d name = Some (Some s1)
    \<and> live_entries s1 dir = Some (take k es @ drop (Suc k) es)
    \<and> icache s1 dir = Some (d\<lparr>nr_entries := nr_entries d - 1\<rparr>)
    \<and> sbi s1 = sbi s
    \<and> (\<forall>i. i \<noteq> dir \<longrightarrow> icache s1 i = icache s i)
    \<and> (\<forall>b. b \<noteq> index_block d \<longrightarrow> disk s1 b = disk s b)"
proof -
  from le d obtain files where b: "disk s (index_block d) = Some (Dir_block files)"
    and l: "nr_entries d \<le> length files" and es: "es = take (nr_entries d) files"
    by (auto elim!: live_entriesD)
  from l es have len: "length es = nr_entries d" by simp
  from k len es before have before': "\<forall>j<k. strncmp name (filename (files ! j)) (length name) = Some False"
    by auto
  from k len es match have match': "strncmp name (filename (files ! k)) (length name) = Some True"
    by auto
  from k len have kn: "k < nr_entries d" by simp
  from delete_entry_loop_removes[OF kn l before' match'] obtain files1 where
    loop: "delete_entry_loop name files (nr_entries d) 0 = Some files1"
    and l1: "length files1 = length files"
    and t1: "take (nr_entries d - 1) files1 = take k (take (nr_entries d) files) @ drop (Suc k) (take (nr_entries d) files)"
    by blast
  define s1 where "s1 = s\<lparr>disk := (disk s)(index_block d \<mapsto> Dir_block files1),
            icache := (icache s)(dir \<mapsto> d\<lparr>nr_entries := nr_entries d - 1\<rparr>)\<rparr>"
  from b loop have 1: "delete_dir_entry s dir d name = Some (Some s1)"
    by (simp add: delete_dir_entry_def s1_def)
  from l l1 t1 es have 2: "live_entries s1 dir = Some (take k es @ drop (Suc k) es)"
    by (simp add: live_entries_def s1_def)
  show ?thesis
    by (rule exI[of _ s1]) (simp add: 1 2, simp add: s1_def)
qed


text \<open>The entries that stay when slot k leaves and no other entry matches.\<close>

lemma remaining_entries_mismatch:
  assumes k: "k < length es"
    and before: "\<forall>j<k. strncmp name (filename (es ! j)) (length name) = Some False"
    and after: "\<forall>j. k < j \<and> j < length es \<longrightarrow>
                  strncmp name (filename (es ! j)) (length name) = Some False"
    and j: "j < length (take k es @ drop (Suc k) es)"
  shows "strncmp name (filename ((take k es @ drop (Suc k) es) ! j)) (length name) = Some False"
proof -
  from j k have j': "j < length es - 1" by simp
  show ?thesis
  proof (cases "j < k")
    case True
    with k before show ?thesis by (simp add: nth_append)
  next
    case False
    with k j' have "(take k es @ drop (Suc k) es) ! j = es ! Suc j"
      by (simp add: nth_append min_def)
    with False j' after show ?thesis by simp
  qed
qed

lemma pnlfs_unlink_success:
  assumes A: "pnlfs_unlink s dir name ino = Some (0, s')" and d: "icache s dir = Some d"
  obtains s1 where "delete_dir_entry s dir d name = Some (Some s1)"
    "unlink_free s1 ino = Some (0, s')"
proof -
  from A obtain inod where i: "icache s ino = Some inod"
    by (cases "icache s ino") (simp_all add: pnlfs_unlink_def)
  from A i have reg: "S_ISREG (i_mode inod)"
    by (cases "S_ISREG (i_mode inod)") (simp_all add: pnlfs_unlink_def)
  from A i reg d have n0: "nr_entries d \<noteq> 0"
    by (cases "nr_entries d = 0") (simp_all add: pnlfs_unlink_def)
  from A i reg d n0 obtain q where q: "delete_dir_entry s dir d name = Some q"
    by (cases "delete_dir_entry s dir d name") (simp_all add: pnlfs_unlink_def)
  from A i reg d n0 q obtain s1 where s1: "q = Some s1"
    by (cases q) (simp_all add: pnlfs_unlink_def)
  from A i reg d n0 q s1 have "unlink_free s1 ino = Some (0, s')"
    by (simp add: pnlfs_unlink_def)
  with q s1 that show thesis by simp
qed

lemma pnlfs_rmdir_success:
  assumes A: "pnlfs_rmdir s dir name ino = Some (0, s')" and d: "icache s dir = Some d"
  obtains s1 where "delete_dir_entry s dir d name = Some (Some s1)"
    "rmdir_free s1 ino = Some (0, s')"
proof -
  from A obtain inod where i: "icache s ino = Some inod"
    by (cases "icache s ino") (simp_all add: pnlfs_rmdir_def)
  from A i have isdir: "S_ISDIR (i_mode inod)"
    by (cases "S_ISDIR (i_mode inod)") (simp_all add: pnlfs_rmdir_def)
  from A i isdir d have n0: "nr_entries d \<noteq> 0"
    by (cases "nr_entries d = 0") (simp_all add: pnlfs_rmdir_def)
  from A i isdir d n0 have e0: "nr_entries inod = 0"
    by (cases "nr_entries inod = 0") (simp_all add: pnlfs_rmdir_def)
  from A i isdir d n0 e0 obtain q where q: "delete_dir_entry s dir d name = Some q"
    by (cases "delete_dir_entry s dir d name") (simp_all add: pnlfs_rmdir_def)
  from A i isdir d n0 e0 q obtain s1 where s1: "q = Some s1"
    by (cases q) (simp_all add: pnlfs_rmdir_def)
  from A i isdir d n0 e0 q s1 have "rmdir_free s1 ino = Some (0, s')"
    by (simp add: pnlfs_rmdir_def)
  with q s1 that show thesis by simp
qed

lemma pnlfs_rename_success:
  assumes A: "pnlfs_rename mx s dir name ino new_dir new_name new_ino = Some (0, s')"
    and d: "icache s dir = Some d"
  obtains s1 where "nr_entries d \<noteq> 0" "delete_dir_entry s dir d name = Some (Some s1)"
    "rename_set_entry mx s1 new_dir new_name (case new_ino of None \<Rightarrow> ino | Some t \<Rightarrow> t)
       = Some (0, s')"
proof -
  from A d have n0: "nr_entries d \<noteq> 0"
    by (cases "nr_entries d = 0") (simp_all add: pnlfs_rename_def)
  from A d n0 obtain q where q: "delete_dir_entry s dir d name = Some q"
    by (cases "delete_dir_entry s dir d name") (simp_all add: pnlfs_rename_def)
  from A d n0 q obtain s1 where s1: "q = Some s1"
    by (cases q) (simp_all add: pnlfs_rename_def)
  from A d n0 q s1 have "rename_set_entry mx s1 new_dir new_name
      (case new_ino of None \<Rightarrow> ino | Some t \<Rightarrow> t) = Some (0, s')"
    by (simp add: pnlfs_rename_def)
  with n0 q s1 that show thesis by simp
qed













text \<open>Unfolding sets for the evaluation of the operations on concrete volumes.\<close>

lemmas vol_abd_simps = vol_abd_def mkfs_def entry_def zero_inode_def zero_dir_block_def NUL_def

lemmas create_simps = pnlfs_create_def pnlfs_mkdir_def set_dir_entry_def pnlfs_new_inode_def
  pnlfs_iget_def get_next_ifree_def get_next_bfree_def get_next_free_def next_word_head
  strncpy_def S_IFDIR_def

lemmas remove_simps = pnlfs_unlink_def pnlfs_rmdir_def pnlfs_rename_def delete_dir_entry_def
  unlink_free_def rmdir_free_def rename_set_entry_def memcpy_files_def strcpy_def
  free_bfree_def free_ifree_def set_free_def S_ISREG_def S_ISDIR_def

lemma replicate_128: "replicate 128 x = x # x # x # replicate 125 x"
proof -
  have "(128::nat) = Suc (Suc (Suc 125))" by simp
  then show ?thesis by (simp only: replicate_Suc)
qed

text \<open>
  The volume \<open>vol_abd\<close> is the one that the fresh image becomes by the creation of \<open>a\<close>,
  of \<open>b\<close> and of the directory \<open>d\<close>.
\<close>

lemma vol_abd_reachable:
  "do { (r1, s1) \<leftarrow> pnlfs_create 128 (mkfs 128 28) 0 ''a'' 0x81A4;
        (r2, s2) \<leftarrow> pnlfs_create 128 s1 0 ''b'' 0x81A4;
        (r3, s3) \<leftarrow> pnlfs_mkdir 128 s2 0 ''d'' 0x1ED;
        Some (r1, r2, r3, s3) }
   = Some (0, 0, 0, vol_abd)"
  by (simp add: create_simps vol_abd_simps loop_simps replicate_128 fun_eq_iff)

text \<open>The volume \<open>vol_a\<close> is the one that the fresh image becomes by the creation of \<open>a\<close>.\<close>

lemma replicate_128_Cons: "replicate 128 x = x # replicate 127 x"
proof -
  have "(128::nat) = Suc 127" by simp
  then show ?thesis by (simp only: replicate_Suc)
qed

lemma vol_a_reachable:
  "pnlfs_create 128 (mkfs 128 28) 0 ''a'' 0x81A4 = Some (0, vol_a)"
  by (simp add: create_simps vol_a_def mkfs_def entry_def zero_inode_def zero_dir_block_def NUL_def
        loop_simps replicate_128_Cons fun_eq_iff)

text \<open>Further facts about the operations that the claims below refer to.\<close>

lemma pnlfs_lookup_SomeD:
  "pnlfs_lookup s dir name = Some (Some x) \<Longrightarrow>
     \<exists>ino. ino \<noteq> 0 \<and> pnlfs_inode_by_name s dir name = Some ino \<and> icache s ino = Some x"
  by (auto simp: pnlfs_lookup_def pnlfs_iget_def bind_eq_Some_conv split: if_splits)

lemma free_keeps_counters:
  "free_ifree sb n = Some sb' \<Longrightarrow> nr_free_inodes sb' = nr_free_inodes sb"
  "free_bfree sb n = Some sb' \<Longrightarrow> nr_free_blocks sb' = nr_free_blocks sb"
  by (auto simp: free_ifree_def free_bfree_def split: option.splits)

lemma pnlfs_rename_full_after_removal:
  assumes "icache s old_dir = Some d" and "nr_entries d \<noteq> 0"
    and "delete_dir_entry s old_dir d old_name = Some (Some s1)"
    and "icache s1 new_dir = Some e" and "mx \<le> nr_entries e"
  shows "pnlfs_rename mx s old_dir old_name old_ino new_dir new_name new_ino = Some (- 1, s1)"
  using assms by (simp add: pnlfs_rename_def rename_set_entry_def)

text \<open>What a rename inside one directory leaves after the removal stage.\<close>

lemma rename_set_entry_same_dir:
  assumes le1: "live_entries s1 dir = Some L"
    and R: "rename_set_entry mx s1 dir new_name key = Some (0, s')"
  shows "\<exists>e. live_entries s' dir = Some (L @ [e])
           \<and> map_option nr_entries (icache s' dir) = Some (Suc (length L))"
  using R
proof (cases rule: rename_set_entry_cases)
  case refused
  then show ?thesis by simp
next
  case (written e files inod fld)
  from le1 written(1,3) have L: "take (nr_entries e) files = L"
    by (auto simp: live_entries_def split: if_splits)
  from written(5) L have len: "length L = nr_entries e" by auto
  from written(5) have
    "take (Suc (nr_entries e)) (files[nr_entries e := \<lparr>inode = i_ino inod mod 2 ^ 32, filename = fld\<rparr>])
       = take (nr_entries e) files @ [\<lparr>inode = i_ino inod mod 2 ^ 32, filename = fld\<rparr>]"
    by (simp add: take_Suc_conv_app_nth)
  with written(5,8) L len show ?thesis
    by (auto simp: live_entries_def)
qed

section \<open>The properties of the specification\<close>

text \<open>
  C1. The claim: after every successful namespace operation of a sequence that starts from
  a freshly formatted image, the popcount of the inode free-bitmap equals
  \<open>nr_free_inodes\<close> and the popcount of the block free-bitmap equals \<open>nr_free_blocks\<close>.

  The code breaks this at the first removal. On the fresh image, \<^verbatim>\<open>pnlfs_create\<close> of
  \<open>a.txt\<close> and then \<^verbatim>\<open>pnlfs_unlink\<close> of it both return 0; the two bits are set again, so
  the popcounts are back at 31 and 59, but the counters that the allocators decremented
  stay at 30 and 58: \<^verbatim>\<open>free_ifree\<close> and \<^verbatim>\<open>free_bfree\<close> never increment them.
\<close>

theorem create_unlink_counters_below_popcount:
  "do { (r1, s1) \<leftarrow> pnlfs_create 128 (mkfs 128 28) 0 ''a.txt'' 0x81A4;
        (r2, s2) \<leftarrow> pnlfs_unlink s1 0 ''a.txt'' 1;
        Some (r1, r2, popcount (ifree_bitmap (sbi s2)), nr_free_inodes (sbi s2),
              popcount (bfree_bitmap (sbi s2)), nr_free_blocks (sbi s2)) }
   = Some (0, 0, 31, 30, 59, 58)"
proof -
  from create_fresh obtain s where
    c: "pnlfs_create 128 (mkfs 128 28) 0 ''a.txt'' 0x81A4 = Some (0, s)"
    and sb: "sbi s = \<lparr>nr_free_inodes = 30, nr_free_blocks = 58,
             ifree_bitmap = 0xFFFFFFFC # replicate 511 0,
             bfree_bitmap = 0xFFFFFFFFFFFFFFC0 # replicate 511 0\<rparr>"
    and i1: "icache s 1 = Some \<lparr>i_ino = 1, i_mode = 0x81A4, i_size = 0, i_blocks = 1,
                                index_block = 5, nr_entries = 0\<rparr>"
    and i0: "icache s 0 = Some \<lparr>i_ino = 0, i_mode = 0x41ED, i_size = 0, i_blocks = 1,
                                index_block = 4, nr_entries = 1\<rparr>"
    and d4: "disk s 4 = Some (Dir_block ((replicate 128 \<lparr>inode = 0, filename = replicate 28 NUL\<rparr>)
            [0 := \<lparr>inode = 1, filename = ''a.txt'' @ replicate 23 NUL\<rparr>]))"
    and d5: "disk s 5 = Some (zero_dir_block 128 28)"
    by blast
  have u: "pnlfs_unlink s 0 ''a.txt'' 1 =
      Some (0, s\<lparr>disk := (disk s)(4 \<mapsto> Dir_block
              ((replicate 128 \<lparr>inode = 0, filename = replicate 28 NUL\<rparr>)
               [0 := \<lparr>inode = 1, filename = ''a.txt'' @ replicate 23 NUL\<rparr>])),
          icache := (icache s)(0 \<mapsto> \<lparr>i_ino = 0, i_mode = 0x41ED, i_size = 0, i_blocks = 1,
                                       index_block = 4, nr_entries = 0\<rparr>),
          sbi := \<lparr>nr_free_inodes = 30, nr_free_blocks = 58,
                  ifree_bitmap = 0xFFFFFFFE # replicate 511 0,
                  bfree_bitmap = 0xFFFFFFFFFFFFFFE0 # replicate 511 0\<rparr>\<rparr>)"
    using sb i1 i0 d4 d5
    by (simp add: pnlfs_unlink_def delete_dir_entry_def unlink_free_def S_ISREG_def
          free_bfree_def free_ifree_def set_free_def loop_simps)
  show ?thesis
    using c u
    by (simp add: popcount_Cons popcount_zeros bits_FFFFFFFE bits_FFFFFFFFFFFFFFE0)
qed

text \<open>
  C2. The claim: for every inode number \<open>ino\<close> and block number \<open>blk\<close> within the bitmap
  ranges, freeing sets exactly bit \<open>ino\<close> (bit \<open>blk\<close>) of the bitmap and increments the
  free counter by one.

  The code does not do this. \<^verbatim>\<open>free_ifree\<close> and \<^verbatim>\<open>free_bfree\<close> divide by the number of
  bytes of a word where the allocator numbers by its 64 bits, and they leave the counter
  alone. On a superblock with inodes and blocks 0 to 9 allocated, freeing number 9 leaves
  bit 9 clear, sets bit 65 (bit 1 of word 1), and leaves the counters at 22 and 54.
\<close>

theorem free_sets_wrong_bit_and_keeps_counter:
  "map_option (\<lambda>sb. (bitmap_bit (ifree_bitmap sb) 9, bitmap_bit (ifree_bitmap sb) 65,
                     nr_free_inodes sb))
     (free_ifree sb_used 9) = Some (False, True, 22)
   \<and> map_option (\<lambda>sb. (bitmap_bit (bfree_bitmap sb) 9, bitmap_bit (bfree_bitmap sb) 65,
                       nr_free_blocks sb))
     (free_bfree sb_used 9) = Some (False, True, 54)"
  by (simp add: free_ifree_def free_bfree_def set_free_def sb_used_def bitmap_bit_def)




text \<open>
  C4. The claim: the directory-entry removal performed by unlink, rmdir and rename scans
  all \<open>nr_entries\<close> live slots, so that when the matching name occupies the last live slot
  (in particular in a directory with exactly one entry) the entry is found, the tail
  entries are shifted left, and \<open>nr_entries\<close> is decremented; the name no longer resolves
  afterwards.

  The code does not compare the last live slot, and the name can still resolve. The loop
  is \<^verbatim>\<open>for (i = 0; i < nr_entries - 1; ++i)\<close> and the decrement of \<^verbatim>\<open>nr_entries\<close> follows it
  without a test, so the last live slot leaves the directory whatever name it holds. In the
  root with the one entry \<open>a\<close>, \<^verbatim>\<open>pnlfs_unlink\<close> under the name \<open>zzz\<close>, which resolves to
  nothing, returns 0 and leaves the directory empty, as it does under the name \<open>a\<close>: no
  entry was found (\<open>delete_entry_loop_one_entry\<close>). On the volume with the root entries
  \<open>a\<close>, \<open>b\<close>, \<open>d\<close>, where \<open>d\<close> occupies the last live slot, \<^verbatim>\<open>pnlfs_rename\<close> of \<open>d\<close> to
  \<open>dd\<close> inside the root returns 0; afterwards \<open>nr_entries\<close> is 3 as before and \<open>d\<close> still
  resolves to inode 3, through the new entry \<open>dd\<close>, which the comparison over the one byte
  of \<open>d\<close> matches.
\<close>

theorem removal_leaves_last_slot_uncompared:
  "listing vol_a 0 = Some [(1, ''a'')]
   \<and> pnlfs_inode_by_name vol_a 0 ''zzz'' = Some 0
   \<and> map_option (\<lambda>(r, s). (r, map_option nr_entries (icache s 0), listing s 0))
        (pnlfs_unlink vol_a 0 ''zzz'' 1) = Some (0, Some 0, Some [])
   \<and> pnlfs_unlink vol_a 0 ''zzz'' 1 = pnlfs_unlink vol_a 0 ''a'' 1
   \<and> listing vol_abd 0 = Some [(1, ''a''), (2, ''b''), (3, ''d'')]
   \<and> pnlfs_inode_by_name vol_abd 0 ''d'' = Some 3
   \<and> do { (r, s) \<leftarrow> pnlfs_rename 128 vol_abd 0 ''d'' 3 0 ''dd'' None;
          ino \<leftarrow> pnlfs_inode_by_name s 0 ''d'';
          Some (r, ino, map_option nr_entries (icache s 0), listing s 0) }
       = Some (0, 3, Some 3, Some [(1, ''a''), (2, ''b''), (3, ''dd'')])"
  by (simp add: pnlfs_inode_by_name_def listing_def live_entries_def emitted_name_def
        remove_simps vol_a_def vol_abd_simps loop_simps)

text \<open>
  C4, as the code has it: the removal that \<^verbatim>\<open>pnlfs_unlink\<close>, \<^verbatim>\<open>pnlfs_rmdir\<close> and
  \<^verbatim>\<open>pnlfs_rename\<close> share compares the name with the first \<open>nr_entries - 1\<close> live slots only
  and then decrements \<open>nr_entries\<close> without a test. When the first live slot that matches
  the name is slot \<open>k\<close>, the last live slot included (\<open>k = length es - 1\<close>, and \<open>k = 0\<close> in a
  directory with exactly one entry), the removal returns: it leaves as live entries those
  before slot \<open>k\<close> followed by those after it, each moved one slot to the left (the
  \<^verbatim>\<open>memcpy\<close> over the overlapping slots being the ascending copy of \<open>memcpy_files\<close>), and
  \<open>nr_entries\<close> one less. \<^verbatim>\<open>pnlfs_unlink\<close> of a regular file, \<^verbatim>\<open>pnlfs_rmdir\<close> of an empty
  directory and \<^verbatim>\<open>pnlfs_rename\<close> go on from that state with their second half. After a
  successful unlink or rmdir, or rename into another directory that has a directory block
  of its own, these are the live entries of \<open>dir\<close>, and the name no longer resolves when no
  other live entry matched it. After a successful rename inside \<open>dir\<close> the new entry follows
  them, \<open>nr_entries\<close> is what it was, and the name no longer resolves when neither another
  live entry nor the new entry matches it.
\<close>

theorem directory_entry_removal_first_match:
  assumes le: "live_entries s dir = Some es"
    and d: "icache s dir = Some d"
    and k: "k < length es"
    and before: "\<forall>j<k. strncmp name (filename (es ! j)) (length name) = Some False"
    and match: "strncmp name (filename (es ! k)) (length name) = Some True"
  shows "\<exists>s1. delete_dir_entry s dir d name = Some (Some s1)
      \<and> live_entries s1 dir = Some (take k es @ drop (Suc k) es)
      \<and> map_option nr_entries (icache s1 dir) = Some (length es - 1)
      \<and> (\<forall>inod. icache s ino = Some inod \<and> S_ISREG (i_mode inod) \<longrightarrow>
            pnlfs_unlink s dir name ino = unlink_free s1 ino)
      \<and> (\<forall>inod. icache s ino = Some inod \<and> S_ISDIR (i_mode inod) \<and> nr_entries inod = 0 \<longrightarrow>
            pnlfs_rmdir s dir name ino = rmdir_free s1 ino)
      \<and> pnlfs_rename mx s dir name ino new_dir new_name new_ino
          = rename_set_entry mx s1 new_dir new_name (case new_ino of None \<Rightarrow> ino | Some t \<Rightarrow> t)
      \<and> (\<forall>s'. pnlfs_unlink s dir name ino = Some (0, s')
               \<or> pnlfs_rmdir s dir name ino = Some (0, s')
               \<or> (new_dir \<noteq> dir
                   \<and> map_option index_block (icache s new_dir) \<noteq> map_option index_block (icache s dir)
                   \<and> pnlfs_rename mx s dir name ino new_dir new_name new_ino = Some (0, s'))
            \<longrightarrow> live_entries s' dir = Some (take k es @ drop (Suc k) es)
                \<and> map_option nr_entries (icache s' dir) = Some (length es - 1)
                \<and> ((\<forall>j. k < j \<and> j < length es \<longrightarrow>
                       strncmp name (filename (es ! j)) (length name) = Some False)
                    \<longrightarrow> pnlfs_inode_by_name s' dir name = Some 0))
      \<and> (\<forall>s'. pnlfs_rename mx s dir name ino dir new_name new_ino = Some (0, s')
            \<longrightarrow> (\<exists>e. live_entries s' dir = Some (take k es @ drop (Suc k) es @ [e])
                    \<and> map_option nr_entries (icache s' dir) = Some (length es)
                    \<and> ((\<forall>j. k < j \<and> j < length es \<longrightarrow>
                           strncmp name (filename (es ! j)) (length name) = Some False)
                        \<and> strncmp name (filename e) (length name) = Some False
                        \<longrightarrow> pnlfs_inode_by_name s' dir name = Some 0)))"
proof -
  let ?L = "take k es @ drop (Suc k) es"
  let ?key = "case new_ino of None \<Rightarrow> ino | Some t \<Rightarrow> t"
  let ?after = "\<forall>j. k < j \<and> j < length es \<longrightarrow>
                  strncmp name (filename (es ! j)) (length name) = Some False"
  from le d have n: "nr_entries d = length es"
    by (auto elim!: live_entriesD)
  with k have n0: "nr_entries d \<noteq> 0" by auto
  from k have lenL: "length ?L = length es - 1" by simp
  from delete_dir_entry_removes[OF le d k before match] obtain s1 where
    del: "delete_dir_entry s dir d name = Some (Some s1)"
    and le1: "live_entries s1 dir = Some ?L"
    and d1: "icache s1 dir = Some (d\<lparr>nr_entries := nr_entries d - 1\<rparr>)"
    and ic: "\<forall>i. i \<noteq> dir \<longrightarrow> icache s1 i = icache s i"
    and dk: "\<forall>b. b \<noteq> index_block d \<longrightarrow> disk s1 b = disk s b"
    by (elim exE conjE)
  from d1 n have cnt1: "map_option nr_entries (icache s1 dir) = Some (length es - 1)" by simp
  have U: "\<forall>inod. icache s ino = Some inod \<and> S_ISREG (i_mode inod) \<longrightarrow>
             pnlfs_unlink s dir name ino = unlink_free s1 ino"
    using d n0 del by (simp add: pnlfs_unlink_def)
  have RM: "\<forall>inod. icache s ino = Some inod \<and> S_ISDIR (i_mode inod) \<and> nr_entries inod = 0 \<longrightarrow>
             pnlfs_rmdir s dir name ino = rmdir_free s1 ino"
    using d n0 del by (simp add: pnlfs_rmdir_def)
  have RN: "pnlfs_rename mx s dir name ino nd new_name new_ino
              = rename_set_entry mx s1 nd new_name ?key" for nd
    using d n0 del by (simp add: pnlfs_rename_def)
  have other: "live_entries s' dir = Some ?L
               \<and> map_option nr_entries (icache s' dir) = Some (length es - 1)
               \<and> (?after \<longrightarrow> pnlfs_inode_by_name s' dir name = Some 0)"
    if ops: "pnlfs_unlink s dir name ino = Some (0, s')
               \<or> pnlfs_rmdir s dir name ino = Some (0, s')
               \<or> (new_dir \<noteq> dir
                   \<and> map_option index_block (icache s new_dir) \<noteq> map_option index_block (icache s dir)
                   \<and> pnlfs_rename mx s dir name ino new_dir new_name new_ino = Some (0, s'))"
    for s'
  proof -
    have same: "live_entries s' dir = live_entries s1 dir
                \<and> map_option nr_entries (icache s' dir) = map_option nr_entries (icache s1 dir)"
      using ops
    proof (elim disjE conjE)
      assume "pnlfs_unlink s dir name ino = Some (0, s')"
      with d del have "unlink_free s1 ino = Some (0, s')"
        by (auto elim!: pnlfs_unlink_success)
      then have "icache s' = icache s1" "disk s' = disk s1"
        by (simp_all add: unlink_free_frame)
      then show ?thesis by (simp add: live_entries_def)
    next
      assume "pnlfs_rmdir s dir name ino = Some (0, s')"
      with d del have "rmdir_free s1 ino = Some (0, s')"
        by (auto elim!: pnlfs_rmdir_success)
      from rmdir_free_frame[OF this, of dir] d1 show ?thesis
        by (intro conjI dir_view_cong[OF d1]) simp_all
    next
      assume nd: "new_dir \<noteq> dir"
        and ib: "map_option index_block (icache s new_dir) \<noteq> map_option index_block (icache s dir)"
        and "pnlfs_rename mx s dir name ino new_dir new_name new_ino = Some (0, s')"
      with RN have R: "rename_set_entry mx s1 new_dir new_name ?key = Some (0, s')" by simp
      then obtain e where e: "icache s1 new_dir = Some e"
        by (auto elim!: rename_set_entry_cases)
      with nd ic have "icache s new_dir = Some e" by simp
      with ib d have ne: "index_block d \<noteq> index_block e" by auto
      from rename_set_entry_frame[OF R e] nd ne
      have "icache s' dir = icache s1 dir" "disk s' (index_block d) = disk s1 (index_block d)"
        by simp_all
      with d1 show ?thesis by (intro conjI dir_view_cong[OF d1]) simp_all
    qed
    with le1 cnt1 have le': "live_entries s' dir = Some ?L"
      and cnt': "map_option nr_entries (icache s' dir) = Some (length es - 1)" by simp_all
    have "pnlfs_inode_by_name s' dir name = Some 0" if after: ?after
      by (rule pnlfs_inode_by_name_live[OF le'])
         (intro allI impI, rule remaining_entries_mismatch[OF k before after])
    with le' cnt' show ?thesis by simp
  qed
  have inside: "\<exists>e. live_entries s' dir = Some (?L @ [e])
                  \<and> map_option nr_entries (icache s' dir) = Some (length es)
                  \<and> (?after \<and> strncmp name (filename e) (length name) = Some False
                      \<longrightarrow> pnlfs_inode_by_name s' dir name = Some 0)"
    if A: "pnlfs_rename mx s dir name ino dir new_name new_ino = Some (0, s')" for s'
  proof -
    from A RN have R: "rename_set_entry mx s1 dir new_name ?key = Some (0, s')" by simp
    from rename_set_entry_same_dir[OF le1 R] obtain e where
      le': "live_entries s' dir = Some (?L @ [e])"
      and cnt': "map_option nr_entries (icache s' dir) = Some (Suc (length ?L))" by blast
    from k have "Suc (length ?L) = length es" by simp
    with cnt' have cnt: "map_option nr_entries (icache s' dir) = Some (length es)"
      by (simp only:)
    have "pnlfs_inode_by_name s' dir name = Some 0"
      if after: ?after and new: "strncmp name (filename e) (length name) = Some False"
    proof (rule pnlfs_inode_by_name_live[OF le'], intro allI impI)
      fix j assume "j < length (?L @ [e])"
      then consider "j < length ?L" | "j = length ?L" by fastforce
      then show "strncmp name (filename ((?L @ [e]) ! j)) (length name) = Some False"
      proof cases
        case 1
        then have "(?L @ [e]) ! j = ?L ! j" by (metis nth_append)
        with remaining_entries_mismatch[OF k before after 1] show ?thesis
          by (simp only:)
      next
        case 2
        then have "(?L @ [e]) ! j = e" by (simp only: nth_append_length)
        with new show ?thesis by (simp only:)
      qed
    qed
    with le' cnt show ?thesis by auto
  qed
  show ?thesis
    apply (rule exI[of _ s1])
    apply (intro conjI)
           apply (rule del)
          apply (rule le1)
         apply (rule cnt1)
        apply (rule U)
       apply (rule RM)
      apply (rule RN)
     apply (intro allI impI, erule other)
    apply (intro allI impI)
    apply (drule inside)
    apply simp
    done
qed

theorem directory_entry_removal_first_match_witness:
  "live_entries vol_abd 0 = Some [entry 1 ''a'', entry 2 ''b'', entry 3 ''d'']
   \<and> (\<exists>s1. delete_dir_entry vol_abd 0
                \<lparr>i_ino = 0, i_mode = 0x41ED, i_size = 0, i_blocks = 1, index_block = 4,
                 nr_entries = 3\<rparr> ''a'' = Some (Some s1)
         \<and> live_entries s1 0 = Some [entry 2 ''b'', entry 3 ''d'']
         \<and> pnlfs_unlink vol_abd 0 ''a'' 1 = unlink_free s1 1)
   \<and> (\<exists>s'. pnlfs_unlink vol_abd 0 ''a'' 1 = Some (0, s')
         \<and> live_entries s' 0 = Some [entry 2 ''b'', entry 3 ''d'']
         \<and> map_option nr_entries (icache s' 0) = Some 2
         \<and> pnlfs_inode_by_name s' 0 ''a'' = Some 0)
   \<and> (\<exists>s'. pnlfs_rmdir vol_abd 0 ''d'' 3 = Some (0, s')
         \<and> live_entries s' 0 = Some [entry 1 ''a'', entry 2 ''b'']
         \<and> map_option nr_entries (icache s' 0) = Some 2
         \<and> pnlfs_inode_by_name s' 0 ''d'' = Some 0)
   \<and> (\<exists>s' e. pnlfs_rename 128 vol_abd 0 ''a'' 1 0 ''e'' None = Some (0, s')
         \<and> live_entries s' 0 = Some [entry 2 ''b'', entry 3 ''d'', e]
         \<and> map_option nr_entries (icache s' 0) = Some 3)"
proof -
  let ?es = "[entry 1 ''a'', entry 2 ''b'', entry 3 ''d'']"
  let ?root = "\<lparr>i_ino = 0, i_mode = 0x41ED, i_size = 0, i_blocks = 1, index_block = 4,
                 nr_entries = 3\<rparr>"
  have le: "live_entries vol_abd 0 = Some ?es"
    by (simp add: live_entries_def vol_abd_def mkfs_def)
  have d: "icache vol_abd 0 = Some ?root"
    by (simp add: vol_abd_def)
  have ka: "0 < length ?es" and kd: "2 < length ?es" by simp_all
  have ba: "\<forall>j<0. strncmp ''a'' (filename (?es ! j)) (length ''a'') = Some False" by simp
  have ma: "strncmp ''a'' (filename (?es ! 0)) (length ''a'') = Some True"
    by (simp add: entry_def)
  have aa: "\<forall>j. 0 < j \<and> j < length ?es \<longrightarrow>
              strncmp ''a'' (filename (?es ! j)) (length ''a'') = Some False"
    by (auto simp: entry_def less_Suc_eq)
  have bd: "\<forall>j<2. strncmp ''d'' (filename (?es ! j)) (length ''d'') = Some False"
    by (auto simp: entry_def less_Suc_eq numeral_2_eq_2)
  have md: "strncmp ''d'' (filename (?es ! 2)) (length ''d'') = Some True"
    by (simp add: entry_def)
  have ad: "\<forall>j. 2 < j \<and> j < length ?es \<longrightarrow>
              strncmp ''d'' (filename (?es ! j)) (length ''d'') = Some False"
    by auto
  have i1: "icache vol_abd 1 = Some \<lparr>i_ino = 1, i_mode = 0x81A4, i_size = 0, i_blocks = 1,
                                       index_block = 5, nr_entries = 0\<rparr>"
    by (simp add: vol_abd_def)
  have reg: "S_ISREG (i_mode \<lparr>i_ino = 1, i_mode = 0x81A4, i_size = 0, i_blocks = 1,
                              index_block = 5, nr_entries = 0\<rparr>)"
    by (simp add: S_ISREG_def)
  from directory_entry_removal_first_match[OF le d ka ba ma, of 1 128 0 "''e''" None] i1 reg
  have "\<exists>s1. delete_dir_entry vol_abd 0 ?root ''a'' = Some (Some s1)
         \<and> live_entries s1 0 = Some (take 0 ?es @ drop (Suc 0) ?es)
         \<and> pnlfs_unlink vol_abd 0 ''a'' 1 = unlink_free s1 1"
    by blast
  then have 0: "\<exists>s1. delete_dir_entry vol_abd 0 ?root ''a'' = Some (Some s1)
         \<and> live_entries s1 0 = Some [entry 2 ''b'', entry 3 ''d'']
         \<and> pnlfs_unlink vol_abd 0 ''a'' 1 = unlink_free s1 1"
    by simp
  have "\<exists>s'. pnlfs_unlink vol_abd 0 ''a'' 1 = Some (0, s')"
    by (simp add: remove_simps vol_abd_simps loop_simps)
  then obtain s' where U: "pnlfs_unlink vol_abd 0 ''a'' 1 = Some (0, s')" by blast
  from directory_entry_removal_first_match[OF le d ka ba ma, of 1 128 0 "''e''" None] U aa
  have "live_entries s' 0 = Some (take 0 ?es @ drop (Suc 0) ?es)
        \<and> map_option nr_entries (icache s' 0) = Some (length ?es - 1)
        \<and> pnlfs_inode_by_name s' 0 ''a'' = Some 0"
    by blast
  with U have 1: "\<exists>s'. pnlfs_unlink vol_abd 0 ''a'' 1 = Some (0, s')
         \<and> live_entries s' 0 = Some [entry 2 ''b'', entry 3 ''d'']
         \<and> map_option nr_entries (icache s' 0) = Some 2
         \<and> pnlfs_inode_by_name s' 0 ''a'' = Some 0"
    by (simp add: numeral_2_eq_2)
  have "\<exists>t'. pnlfs_rmdir vol_abd 0 ''d'' 3 = Some (0, t')"
    by (simp add: remove_simps vol_abd_simps loop_simps)
  then obtain t' where R: "pnlfs_rmdir vol_abd 0 ''d'' 3 = Some (0, t')" by blast
  from directory_entry_removal_first_match[OF le d kd bd md, of 3 128 0 "''e''" None] R ad
  have "live_entries t' 0 = Some (take 2 ?es @ drop (Suc 2) ?es)
        \<and> map_option nr_entries (icache t' 0) = Some (length ?es - 1)
        \<and> pnlfs_inode_by_name t' 0 ''d'' = Some 0"
    by blast
  with R have 2: "\<exists>s'. pnlfs_rmdir vol_abd 0 ''d'' 3 = Some (0, s')
         \<and> live_entries s' 0 = Some [entry 1 ''a'', entry 2 ''b'']
         \<and> map_option nr_entries (icache s' 0) = Some 2
         \<and> pnlfs_inode_by_name s' 0 ''d'' = Some 0"
    by (simp add: numeral_2_eq_2)
  have "\<exists>u'. pnlfs_rename 128 vol_abd 0 ''a'' 1 0 ''e'' None = Some (0, u')"
    by (simp add: remove_simps vol_abd_simps loop_simps)
  then obtain u' where N: "pnlfs_rename 128 vol_abd 0 ''a'' 1 0 ''e'' None = Some (0, u')"
    by blast
  from directory_entry_removal_first_match[OF le d ka ba ma, of 1 128 0 "''e''" None] N
  have "\<exists>e. live_entries u' 0 = Some (take 0 ?es @ drop (Suc 0) ?es @ [e])
        \<and> map_option nr_entries (icache u' 0) = Some (length ?es)"
    by blast
  with N have 3: "\<exists>s' e. pnlfs_rename 128 vol_abd 0 ''a'' 1 0 ''e'' None = Some (0, s')
         \<and> live_entries s' 0 = Some [entry 2 ''b'', entry 3 ''d'', e]
         \<and> map_option nr_entries (icache s' 0) = Some 3"
    by (auto simp: numeral_3_eq_3)
  from le 0 1 2 3 show ?thesis by (intro conjI)
qed

text \<open>
  C5. The claim: when \<open>new_name\<close> exists in \<open>new_dir\<close> as inode T and \<open>old_name\<close> resolves to
  inode S, after a successful rename \<open>new_name\<close> resolves to S and the resources of T are
  freed.

  The code does neither. On the volume with the root entries \<open>a\<close> (inode 1), \<open>b\<close>
  (inode 2) and \<open>d\<close>, renaming \<open>a\<close> to \<open>b\<close> returns 0; afterwards \<open>b\<close> resolves to inode 2,
  and inode 2 and its index block 6 are still allocated.
\<close>

theorem rename_over_target_keeps_target:
  "pnlfs_inode_by_name vol_abd 0 ''a'' = Some 1
   \<and> pnlfs_inode_by_name vol_abd 0 ''b'' = Some 2
   \<and> do { (r, s) \<leftarrow> pnlfs_rename 128 vol_abd 0 ''a'' 1 0 ''b'' (Some 2);
          ino \<leftarrow> pnlfs_inode_by_name s 0 ''b'';
          Some (r, ino, bitmap_bit (ifree_bitmap (sbi s)) 2, bitmap_bit (bfree_bitmap (sbi s)) 6) }
       = Some (0, 2, False, False)"
  by (simp add: pnlfs_inode_by_name_def remove_simps bitmap_bit_def vol_abd_simps loop_simps)

text \<open>
  C5, as the code has it: \<^verbatim>\<open>pnlfs_rename\<close> frees nothing. Whatever it returns, both
  bitmaps and both counters are as before the call, so the inode bit, the index block and
  the data blocks of a target that \<open>new_name\<close> named stay allocated.
\<close>

theorem pnlfs_rename_frees_nothing:
  assumes "pnlfs_rename mx s old_dir old_name old_ino new_dir new_name new_ino = Some (r, s')"
  shows "sbi s' = sbi s"
proof -
  from assms obtain d where d: "icache s old_dir = Some d"
    by (cases "icache s old_dir") (simp_all add: pnlfs_rename_def)
  show ?thesis
  proof (cases "nr_entries d = 0")
    case True
    with assms d show ?thesis by (simp add: pnlfs_rename_def)
  next
    case False
    with assms d obtain q where q: "delete_dir_entry s old_dir d old_name = Some q"
      by (cases "delete_dir_entry s old_dir d old_name") (simp_all add: pnlfs_rename_def)
    show ?thesis
    proof (cases q)
      case None
      with assms d False q show ?thesis by (simp add: pnlfs_rename_def)
    next
      case (Some s1)
      with assms d False q have
        "rename_set_entry mx s1 new_dir new_name (case new_ino of None \<Rightarrow> old_ino | Some t \<Rightarrow> t)
           = Some (r, s')"
        by (simp add: pnlfs_rename_def)
      then have "sbi s' = sbi s1" by (rule rename_set_entry_sbi)
      moreover from q Some have "sbi s1 = sbi s" by (simp add: delete_dir_entry_sbi)
      ultimately show ?thesis by simp
    qed
  qed
qed

theorem pnlfs_rename_frees_nothing_witness:
  "map_option (\<lambda>(r, s'). (r, sbi s' = sbi vol_abd))
     (pnlfs_rename 128 vol_abd 0 ''a'' 1 0 ''b'' (Some 2)) = Some (0, True)"
proof -
  have "\<exists>s'. pnlfs_rename 128 vol_abd 0 ''a'' 1 0 ''b'' (Some 2) = Some (0, s')"
    by (simp add: remove_simps vol_abd_simps loop_simps)
  then obtain s' where R: "pnlfs_rename 128 vol_abd 0 ''a'' 1 0 ''b'' (Some 2) = Some (0, s')"
    by blast
  from pnlfs_rename_frees_nothing[OF R] R show ?thesis by simp
qed

text \<open>
  C6. The claim: \<open>rename(d, n, d, n, flags)\<close> is a no-op; the directory block, \<open>nr_entries\<close>,
  both bitmaps and both counters are the same before and after.

  The directory block is not. On the volume with the root entries \<open>a\<close>, \<open>b\<close>, \<open>d\<close>,
  renaming \<open>a\<close> to \<open>a\<close> in the root returns 0 and leaves the entries in the order \<open>b\<close>,
  \<open>d\<close>, \<open>a\<close>: the entry is taken out and written again at the last live slot.
\<close>

theorem rename_same_name_moves_entry:
  "pnlfs_inode_by_name vol_abd 0 ''a'' = Some 1
   \<and> listing vol_abd 0 = Some [(1, ''a''), (2, ''b''), (3, ''d'')]
   \<and> map_option (\<lambda>(r, s). (r, disk s 4 = disk vol_abd 4, listing s 0))
       (pnlfs_rename 128 vol_abd 0 ''a'' 1 0 ''a'' (Some 1))
       = Some (0, False, Some [(2, ''b''), (3, ''d''), (1, ''a'')])"
  by (simp add: pnlfs_inode_by_name_def remove_simps listing_def live_entries_def emitted_name_def
        vol_abd_simps loop_simps)

text \<open>
  C6, as the code has it: a successful \<open>rename(d, n, d, n, flags)\<close> leaves \<open>nr_entries\<close> of
  \<open>d\<close>, both bitmaps and both counters as they were. The directory block is rewritten.
\<close>

theorem pnlfs_rename_same_name_keeps_counts:
  assumes d: "icache s dir = Some d"
    and A: "pnlfs_rename mx s dir name ino dir name new_ino = Some (0, s')"
  shows "sbi s' = sbi s \<and> map_option nr_entries (icache s' dir) = Some (nr_entries d)"
proof -
  have n0: "nr_entries d \<noteq> 0" using A d by (auto simp: pnlfs_rename_def split: if_splits)
  with A d obtain q where q: "delete_dir_entry s dir d name = Some q"
    by (cases "delete_dir_entry s dir d name") (simp_all add: pnlfs_rename_def)
  with A d n0 obtain s1 where s1: "q = Some s1"
    by (cases q) (simp_all add: pnlfs_rename_def)
  with A d n0 q have R:
    "rename_set_entry mx s1 dir name (case new_ino of None \<Rightarrow> ino | Some t \<Rightarrow> t) = Some (0, s')"
    by (simp add: pnlfs_rename_def)
  from q s1 have e: "icache s1 dir = Some (d\<lparr>nr_entries := nr_entries d - 1\<rparr>)"
    by (auto elim!: delete_dir_entry_SomeD)
  from rename_set_entry_count[OF R e] n0
  have "map_option nr_entries (icache s' dir) = Some (nr_entries d)" by simp
  moreover have "sbi s' = sbi s"
    using rename_set_entry_sbi[OF R] delete_dir_entry_sbi q s1 by simp
  ultimately show ?thesis by simp
qed

theorem pnlfs_rename_same_name_keeps_counts_witness:
  "map_option nr_entries (icache vol_abd 0) = Some 3
   \<and> map_option (\<lambda>(r, s'). (r, sbi s' = sbi vol_abd, map_option nr_entries (icache s' 0)))
       (pnlfs_rename 128 vol_abd 0 ''a'' 1 0 ''a'' (Some 1)) = Some (0, True, Some 3)"
proof -
  have d: "icache vol_abd 0 = Some \<lparr>i_ino = 0, i_mode = 0x41ED, i_size = 0, i_blocks = 1,
                                     index_block = 4, nr_entries = 3\<rparr>"
    by (simp add: vol_abd_def)
  have "\<exists>s'. pnlfs_rename 128 vol_abd 0 ''a'' 1 0 ''a'' (Some 1) = Some (0, s')"
    by (simp add: remove_simps vol_abd_simps loop_simps)
  then obtain s' where R: "pnlfs_rename 128 vol_abd 0 ''a'' 1 0 ''a'' (Some 1) = Some (0, s')"
    by blast
  from pnlfs_rename_same_name_keeps_counts[OF d R] d R show ?thesis by simp
qed

text \<open>
  C7. The claim: an operation that returns DirFull, NameExists, NotEmpty, NoFreeInode or
  NoFreeBlock leaves the volume unchanged; a rename that fails with DirFull on \<open>new_dir\<close>
  leaves the entries of \<open>old_dir\<close> intact, and a create that finds a free inode but no
  free block undoes the inode allocation before failing.

  The code does not. On a volume with no free block, \<^verbatim>\<open>pnlfs_create\<close> of \<open>c\<close> returns 0:
  inode 4 is taken (\<open>nr_free_inodes\<close> goes from 28 to 27), the 0 that \<^verbatim>\<open>get_next_bfree\<close>
  returns for "no block" becomes its index block, and the entry is written. On the volume
  whose directory \<open>d\<close> is full, \<^verbatim>\<open>pnlfs_rename\<close> of \<open>g\<close> from the root into \<open>d\<close> returns
  \<open>-1\<close> after it has taken the entry out of the root: the root has 1 entry where it had 2.
\<close>

theorem failed_operations_change_volume:
  "map_option (\<lambda>(r, s). (r, nr_free_inodes (sbi s), bitmap_bit (ifree_bitmap (sbi s)) 4,
                 map_option index_block (icache s 4), map_option nr_entries (icache s 0)))
     (pnlfs_create 128 vol_noblocks 0 ''c'' 0x81A4) = Some (0, 27, False, Some 0, Some 4)
   \<and> nr_free_blocks (sbi vol_noblocks) = 0
   \<and> nr_free_inodes (sbi vol_noblocks) = 28
   \<and> bitmap_bit (ifree_bitmap (sbi vol_noblocks)) 4
   \<and> map_option (\<lambda>(r, s). (r, map_option nr_entries (icache s 0), map_option nr_entries (icache s 1)))
     (pnlfs_rename 128 vol_full 0 ''g'' 2 1 ''g'' None) = Some (- 1, Some 1, Some 128)
   \<and> map_option nr_entries (icache vol_full 0) = Some 2"
  by (simp add: create_simps remove_simps bitmap_bit_def vol_noblocks_def vol_full_def
        vol_abd_simps loop_simps)

text \<open>
  C8. The claim: for a name that is not a live entry of \<open>dir\<close>, \<open>unlink\<close> returns NotFound
  and leaves \<open>nr_entries\<close> and the directory block of \<open>dir\<close> unchanged.

  \<^verbatim>\<open>pnlfs_unlink\<close> does not look the name up; the caller passes the inode. In the root
  with the entries \<open>a\<close>, \<open>b\<close>, \<open>d\<close>, where \<open>c\<close> does not resolve, the call with the name \<open>c\<close>
  and the regular file of inode 1 returns 0 and leaves the root with 2 entries.
\<close>

theorem unlink_missing_name_succeeds:
  "pnlfs_inode_by_name vol_abd 0 ''c'' = Some 0
   \<and> map_option (\<lambda>(r, s). (r, map_option nr_entries (icache s 0)))
        (pnlfs_unlink vol_abd 0 ''c'' 1) = Some (0, Some 2)"
  by (simp add: pnlfs_inode_by_name_def remove_simps vol_abd_simps loop_simps)

text \<open>
  C8, as the code has it: in a directory with no live entry, where no name is present,
  \<^verbatim>\<open>pnlfs_unlink\<close> returns \<open>-1\<close> and leaves the whole volume unchanged.
\<close>

theorem pnlfs_unlink_empty_dir_fails:
  assumes "icache s ino = Some x" and "icache s dir = Some d" and "nr_entries d = 0"
  shows "pnlfs_unlink s dir name ino = Some (- 1, s)"
  using assms by (simp add: pnlfs_unlink_def)

theorem pnlfs_unlink_empty_dir_fails_witness:
  "map_option nr_entries (icache vol_abd 3) = Some 0
   \<and> map_option i_mode (icache vol_abd 1) = Some 0x81A4
   \<and> pnlfs_unlink vol_abd 3 ''a'' 1 = Some (- 1, vol_abd)"
  using pnlfs_unlink_empty_dir_fails [of vol_abd 1
      "\<lparr>i_ino = 1, i_mode = 0x81A4, i_size = 0, i_blocks = 1, index_block = 5, nr_entries = 0\<rparr>"
      3
      "\<lparr>i_ino = 3, i_mode = 0x41ED, i_size = 0, i_blocks = 1, index_block = 7, nr_entries = 0\<rparr>"
      "''a''"]
  by (simp add: vol_abd_def)

text \<open>
  C9. The claim: for a cursor \<open>c\<close> with \<open>2 \<le> c < nr_entries + 2\<close>, readdir starting at \<open>c\<close>
  emits directory-block entry \<open>c - 2\<close>, not entry 0, so that no entry is emitted twice
  across an enumeration.

  \<^verbatim>\<open>pnlfs_readdir\<close> starts its loop at slot 0 whatever the cursor is. In the root with
  the entries \<open>a\<close>, \<open>b\<close>, \<open>d\<close>, a call at cursor 3 emits \<open>a\<close>, \<open>b\<close>, \<open>d\<close> and leaves the cursor
  at 6. An enumeration whose first call is cut after three entries (".", "..", \<open>a\<close>, cursor
  3) and is resumed there emits \<open>a\<close> a second time.
\<close>

theorem pnlfs_readdir_restarts_at_slot_0:
  "map_option (\<lambda>(r, c). (r, emitted c, pos c))
     (pnlfs_readdir vol_abd 0 0 \<lparr>pos = 3, emitted = [], room = 10\<rparr>)
   = Some (0, [(''a'', 1, DT_REG), (''b'', 2, DT_REG), (''d'', 3, DT_DIR)], 6)
   \<and> do { (r1, c1) \<leftarrow> pnlfs_readdir vol_abd 0 0 \<lparr>pos = 0, emitted = [], room = 3\<rparr>;
          (r2, c2) \<leftarrow> pnlfs_readdir vol_abd 0 0 (c1\<lparr>room := 10\<rparr>);
          Some (r1, pos c1, r2, pos c2, emitted c2) }
     = Some (0, 3, 0, 6, [(''.'', 0, DT_DIR), (''..'', 0, DT_DIR), (''a'', 1, DT_REG),
              (''a'', 1, DT_REG), (''b'', 2, DT_REG), (''d'', 3, DT_DIR)])"
  by (simp add: pnlfs_readdir_def dir_emit_dots_def dir_emit_def pnlfs_iget_def emitted_name_def
        S_ISREG_def S_ISDIR_def vol_abd_simps loop_simps)

text \<open>
  C10. \<^verbatim>\<open>pnlfs_inode_by_name\<close> uses inode number 0 as its not-found result: it returns 0
  when none of the \<open>nr_entries\<close> live entries matches the name, and it returns 0 when the
  first matching entry stores inode number 0. In both cases \<^verbatim>\<open>pnlfs_lookup\<close> binds no
  inode to the dentry, so a directory entry that refers to inode 0 is reported as not
  found. Here \<open>k\<close> is the number of leading live entries that do not match.
\<close>

theorem pnlfs_inode_by_name_zero_sentinel:
  assumes "icache s dir = Some d"
    and "disk s (index_block d) = Some (Dir_block files)"
    and "nr_entries d \<le> length files"
    and "k \<le> nr_entries d"
    and "\<forall>j<k. strncmp name (filename (files ! j)) (length name) = Some False"
    and "k = nr_entries d \<or>
         (strncmp name (filename (files ! k)) (length name) = Some True \<and>
          inode (files ! k) = 0)"
  shows "pnlfs_inode_by_name s dir name = Some 0 \<and> pnlfs_lookup s dir name = Some None"
proof -
  have loop: "inode_by_name_loop name files (nr_entries d) 0 = Some 0"
  proof (cases "k = nr_entries d")
    case True
    with assms(3,5) show ?thesis
      by (intro inode_by_name_loop_no_match) auto
  next
    case False
    with assms(6) have m: "strncmp name (filename (files ! k)) (length name) = Some True"
      and z: "inode (files ! k) = 0" by auto
    from False assms(4) have lt: "k < nr_entries d" by simp
    with assms(3) have "k < length files" by simp
    with lt m assms(5)
    have "inode_by_name_loop name files (nr_entries d) 0 = Some (inode (files ! k))"
      by (intro inode_by_name_loop_first_match) auto
    with z show ?thesis by simp
  qed
  with assms(1,2) have "pnlfs_inode_by_name s dir name = Some 0"
    by (simp add: pnlfs_inode_by_name_def)
  then show ?thesis by (simp add: pnlfs_lookup_def)
qed

theorem pnlfs_inode_by_name_zero_sentinel_witness:
  "strncmp ''x'' (''x'' @ replicate 27 NUL) (length ''x'') = Some True
   \<and> pnlfs_inode_by_name vol_entry0 0 ''x'' = Some 0
   \<and> pnlfs_lookup vol_entry0 0 ''x'' = Some None"
  using pnlfs_inode_by_name_zero_sentinel [of vol_entry0 0
      "\<lparr>i_ino = 0, i_mode = 0x41ED, i_size = 0, i_blocks = 1, index_block = 4, nr_entries = 1\<rparr>"
      "\<lparr>inode = 0, filename = ''x'' @ replicate 27 NUL\<rparr> #
       replicate 127 \<lparr>inode = 0, filename = replicate 28 NUL\<rparr>" 0 "''x''"]
  by (simp add: vol_entry0_def NUL_def)

end
